theory Spec2Isabelle
  imports Main "HOL-Library.Word"
begin

section \<open>RqstRush: a reconfigurable HTTP load generator\<close>

text \<open>
  The repository holds two variants of one Go program. \<^verbatim>\<open>main.go\<close> is the simple
  variant: every worker loops forever. The second file is the rate-limited variant: the
  workers range over a job queue that a producer goroutine fills, and a failed request
  is retried. \<^verbatim>\<open>LoadConfig\<close>, \<^verbatim>\<open>MonitorConfig\<close> and \<^verbatim>\<open>LogStats\<close> are the same text
  in both files.

  Go's package-level variables become one record that every function takes and returns.
  What the program does to the outside world (log lines, lock operations, HTTP calls,
  sleeps) is appended to the field \<open>trace\<close>. What the outside world answers (the file
  system, the JSON decoder, the network, the random source) is an argument.
\<close>

subsection \<open>Data\<close>

type_synonym error = string

text \<open>A \<^verbatim>\<open>time.Time\<close> is an instant, in nanoseconds since the zero Time, so that the zero
  value of the type is \<open>0\<close> and \<^verbatim>\<open>Equal\<close> is equality. A \<^verbatim>\<open>time.Duration\<close> is a number of
  nanoseconds.\<close>

type_synonym Time = int
type_synonym Duration = int

definition Millisecond :: Duration where
  "Millisecond = 1000000"

definition Second :: Duration where
  "Second = 1000 * Millisecond"

text \<open>\<^verbatim>\<open>type Config struct { TargetURL string; Concurrency int }\<close>. The program compares
  \<open>Concurrency\<close> with a loop counter that starts at 0 and never passes it, so no
  arithmetic on it can overflow and it is an \<open>int\<close> here.\<close>

record Config =
  TargetURL :: string
  Concurrency :: int

definition zero_Config :: Config where
  "zero_Config = \<lparr>TargetURL = [], Concurrency = 0\<rparr>"

type_synonym Request = string

record Response =
  StatusCode :: nat

datatype LogLine =
    FailedToOpenConfig error
  | FailedToReadConfig error
  | FailedToParseConfig error
  | ConfigUpdated Config
  | RequestCreationFailed error
  | RequestFailed error
  | RequestFailedAttempt int error
  | StoppingWorkers
  | StartingNewWorkers int
  | RequestsInLastSecond "64 word"
  | TimeTakenFor100k Duration

datatype Event =
    Log LogLine
  | ConfigLock
  | ConfigUnlock
  | ConfigRLock
  | ConfigRUnlock
  | WriteConfig Config
  | HttpDo nat Request
  | BodyClose Response
  | Sleep Duration

text \<open>The package-level variables of both files, and the bookkeeping of the model:
  \<open>trace\<close> (the effects so far), \<open>doCalls\<close> (how many times \<^verbatim>\<open>client.Do\<close> was called),
  \<open>randCalls\<close> (how many numbers were drawn from \<^verbatim>\<open>math/rand\<close>) and \<open>clients\<close> (how many
  \<^verbatim>\<open>http.Client\<close> values were built; a client is named by its number). \<open>workerWg\<close> is the
  counter of the WaitGroup. \<open>jobQueue\<close>, which only the rate-limited file declares, is
  \<open>None\<close> for the nil channel or the number of a channel made earlier. An unrecovered
  panic ends a Go process; \<open>panicked\<close> records it.\<close>

datatype Panic =
    NegativeWaitGroupCounter
  | CloseOfNilChannel
  | CloseOfClosedChannel
  | SendOnClosedChannel
  | MakechanSizeOutOfRange

record Globals =
  config :: Config
  reqCounter :: "64 word"
  lastModTime :: Time
  workerWg :: nat
  workersActive :: bool
  jobQueue :: "nat option"
  panicked :: "Panic option"
  trace :: "Event list"
  doCalls :: nat
  randCalls :: nat
  clients :: nat

definition emit :: "Event \<Rightarrow> 'a Globals_scheme \<Rightarrow> 'a Globals_scheme" where
  "emit e s = s\<lparr>trace := trace s @ [e]\<rparr>"

subsection \<open>ConfigStore: \<^verbatim>\<open>LoadConfig\<close>\<close>

text \<open>What one call of \<^verbatim>\<open>LoadConfig\<close> finds on disk: the answer of \<^verbatim>\<open>os.Stat\<close> (an error
  or the modification time) and the answer of \<^verbatim>\<open>os.Open\<close> (an error or the bytes the
  decoder will read). The JSON decoder is a parameter: an error, or the decoded value.\<close>

record Source =
  stat_result :: "error + Time"
  open_result :: "error + string"

definition LoadConfig ::
  "(string \<Rightarrow> error + Config) \<Rightarrow> Source \<Rightarrow> 'a Globals_scheme \<Rightarrow> bool \<times> 'a Globals_scheme" where
  "LoadConfig decode src s =
     (case stat_result src of
        Inl e \<Rightarrow> (False, emit (Log (FailedToOpenConfig e)) s)
      | Inr modTime \<Rightarrow>
          if modTime = lastModTime s then (False, s)
          else
            (case open_result src of
               Inl e \<Rightarrow> (False, emit (Log (FailedToReadConfig e)) s)
             | Inr bytes \<Rightarrow>
                 (case decode bytes of
                    Inl e \<Rightarrow> (False, emit (Log (FailedToParseConfig e)) s)
                  | Inr newConfig \<Rightarrow>
                      (let s1 = emit ConfigLock s;
                           s2 = emit (WriteConfig newConfig) (s1\<lparr>config := newConfig\<rparr>);
                           s3 = emit ConfigUnlock s2;
                           s4 = s3\<lparr>lastModTime := modTime\<rparr>
                       in (True, emit (Log (ConfigUpdated (config s4))) s4)))))"

text \<open>Polling: \<^verbatim>\<open>LoadConfig\<close> called once for each element of a list of file-system
  views, the answers collected.\<close>

fun reloads ::
  "(string \<Rightarrow> error + Config) \<Rightarrow> Source list \<Rightarrow> 'a Globals_scheme \<Rightarrow> bool list \<times> 'a Globals_scheme" where
  "reloads decode [] s = ([], s)"
| "reloads decode (src # srcs) s =
     (let (b, s1) = LoadConfig decode src s;
          (bs, s2) = reloads decode srcs s1
      in (b # bs, s2))"


subsection \<open>RequestCounter: the two atomic operations\<close>

text \<open>\<^verbatim>\<open>atomic.AddUint64(&reqCounter, delta)\<close> and \<^verbatim>\<open>atomic.SwapUint64(&reqCounter, new)\<close>,
  which returns the old value. Each is one step: nothing runs in between its read and
  its write. The counter is a \<^verbatim>\<open>uint64\<close>, so the addition wraps at \<open>2 ^ 64\<close>.\<close>

definition AddUint64 :: "64 word \<Rightarrow> 'a Globals_scheme \<Rightarrow> 'a Globals_scheme" where
  "AddUint64 delta s = s\<lparr>reqCounter := reqCounter s + delta\<rparr>"

definition SwapUint64 :: "64 word \<Rightarrow> 'a Globals_scheme \<Rightarrow> 64 word \<times> 'a Globals_scheme" where
  "SwapUint64 new s = (reqCounter s, s\<lparr>reqCounter := new\<rparr>)"

text \<open>An interleaving of the workers' completions (each one \<^verbatim>\<open>AddUint64(&reqCounter, 1)\<close>)
  and of the reporter's resets (each one \<^verbatim>\<open>SwapUint64(&reqCounter, 0)\<close>), in the order in
  which the atomic operations take effect. The result lists what the resets returned.\<close>

datatype CounterOp = Completion | Reset

fun counter_run :: "CounterOp list \<Rightarrow> 'a Globals_scheme \<Rightarrow> 64 word list \<times> 'a Globals_scheme" where
  "counter_run [] s = ([], s)"
| "counter_run (Completion # ops) s = counter_run ops (AddUint64 1 s)"
| "counter_run (Reset # ops) s =
     (let (count, s1) = SwapUint64 0 s;
          (counts, s2) = counter_run ops s1
      in (count # counts, s2))"

subsection \<open>StatsReporter: \<^verbatim>\<open>LogStats\<close>\<close>

text \<open>The ticker's period, \<^verbatim>\<open>1 * time.Second\<close>, and the watcher's, \<^verbatim>\<open>5 * time.Second\<close>.\<close>

definition LogStats_period :: Duration where
  "LogStats_period = 1 * Second"

definition MonitorConfig_period :: Duration where
  "MonitorConfig_period = 5 * Second"

text \<open>One iteration of \<^verbatim>\<open>for range ticker.C\<close>. The local variable \<^verbatim>\<open>startTime\<close> is
  threaded with the globals. The iteration reads the clock twice: \<open>since_now\<close> is the
  reading \<^verbatim>\<open>time.Since(startTime)\<close> takes, \<open>reset_now\<close> the later one of
  \<^verbatim>\<open>startTime = time.Now()\<close>. The elapsed time stays a Duration; its conversion to
  floating-point seconds for the log line is not modelled.\<close>

definition LogStats_tick ::
  "Time \<Rightarrow> Time \<Rightarrow> Time \<times> 'a Globals_scheme \<Rightarrow> Time \<times> 'a Globals_scheme" where
  "LogStats_tick since_now reset_now st =
     (let (startTime, s) = st;
          (count, s1) = SwapUint64 0 s;
          elapsed = since_now - startTime;
          s2 = emit (Log (RequestsInLastSecond count)) s1
      in if count \<ge> 100000
         then (reset_now, emit (Log (TimeTakenFor100k elapsed)) s2)
         else (startTime, s2))"

text \<open>The loop over the ticks. Between two ticks the workers complete requests; a tick
  carries how many, and the two clock readings of its iteration.\<close>

record Tick =
  completions :: nat
  since_clock :: Time
  reset_clock :: Time

fun LogStats_loop :: "Tick list \<Rightarrow> Time \<times> 'a Globals_scheme \<Rightarrow> Time \<times> 'a Globals_scheme" where
  "LogStats_loop [] st = st"
| "LogStats_loop (t # ts) st =
     LogStats_loop ts
       (LogStats_tick (since_clock t) (reset_clock t)
          (fst st, ((AddUint64 1) ^^ completions t) (snd st)))"

subsection \<open>The network and the random source\<close>

text \<open>The answers of the outside world to the workers: \<^verbatim>\<open>http.NewRequest("GET", url, nil)\<close>
  fails or builds a request, as a function of the URL; the \<open>k\<close>-th call of \<^verbatim>\<open>client.Do\<close>
  of the whole process fails with a transport error or returns a response, whose status
  code the program never reads; the \<open>k\<close>-th number drawn from \<^verbatim>\<open>math/rand\<close> is
  \<open>draw k\<close>, and \<^verbatim>\<open>rand.Intn(n)\<close> reduces it into \<open>[0, n)\<close>.\<close>

record Env =
  json_decode :: "string \<Rightarrow> error + Config"
  newRequest :: "string \<Rightarrow> error + Request"
  transport :: "nat \<Rightarrow> error + Response"
  draw :: "nat \<Rightarrow> nat"

definition Intn :: "Env \<Rightarrow> nat \<Rightarrow> 'a Globals_scheme \<Rightarrow> nat \<times> 'a Globals_scheme" where
  "Intn env n s = (draw env (randCalls s) mod n, s\<lparr>randCalls := randCalls s + 1\<rparr>)"

definition client_Do ::
  "Env \<Rightarrow> nat \<Rightarrow> Request \<Rightarrow> 'a Globals_scheme \<Rightarrow> (error + Response) \<times> 'a Globals_scheme" where
  "client_Do env client req s =
     (transport env (doCalls s), (emit (HttpDo client req) s)\<lparr>doCalls := doCalls s + 1\<rparr>)"

subsection \<open>The workers' loop bodies\<close>

text \<open>How a loop body ends: it falls through to the next iteration, it executes
  \<^verbatim>\<open>continue\<close>, or it leaves the function.\<close>

datatype Flow = Next | Continue | Return

text \<open>The body of \<^verbatim>\<open>for { ... }\<close> in \<^verbatim>\<open>worker\<close> of \<^verbatim>\<open>main.go\<close>.\<close>

definition worker_simple_body :: "Env \<Rightarrow> nat \<Rightarrow> 'a Globals_scheme \<Rightarrow> Flow \<times> 'a Globals_scheme" where
  "worker_simple_body env client s =
     (let s1 = emit ConfigRLock s;
          url = TargetURL (config s1);
          s2 = emit ConfigRUnlock s1
      in case newRequest env url of
           Inl e \<Rightarrow> (Continue, emit (Log (RequestCreationFailed e)) s2)
         | Inr req \<Rightarrow>
             (case client_Do env client req s2 of
                (Inl e, s3) \<Rightarrow> (Continue, emit (Log (RequestFailed e)) s3)
              | (Inr resp, s3) \<Rightarrow> (Next, AddUint64 1 (emit (BodyClose resp) s3))))"

text \<open>The retry loop of the rate-limited \<^verbatim>\<open>worker\<close>:
  \<^verbatim>\<open>for i := 0; i < maxRetries; i++ { ... }\<close>, started at \<open>i\<close>.\<close>

definition maxRetries :: int where
  "maxRetries = 3"

function retry_loop :: "Env \<Rightarrow> nat \<Rightarrow> Request \<Rightarrow> int \<Rightarrow> 'a Globals_scheme \<Rightarrow> 'a Globals_scheme" where
  "retry_loop env client req i s =
     (if i < maxRetries then
        (case client_Do env client req s of
           (Inr resp, s1) \<Rightarrow> AddUint64 1 (emit (BodyClose resp) s1)
         | (Inl e, s1) \<Rightarrow>
             (let s2 = emit (Log (RequestFailedAttempt (i + 1) e)) s1;
                  (r, s3) = Intn env 100 s2;
                  s4 = emit (Sleep (int r * Millisecond)) s3
              in retry_loop env client req (i + 1) s4))
      else s)"
  by pat_completeness auto
termination
  by (relation "measure (\<lambda>(env, client, req, i, s). nat (maxRetries - i))") auto

declare retry_loop.simps [simp del]

text \<open>The body of \<^verbatim>\<open>for range jobQueue { ... }\<close> in the rate-limited \<^verbatim>\<open>worker\<close>, run once
  for each job received.\<close>

definition worker_rl_body :: "Env \<Rightarrow> nat \<Rightarrow> 'a Globals_scheme \<Rightarrow> Flow \<times> 'a Globals_scheme" where
  "worker_rl_body env client s =
     (let s1 = emit ConfigRLock s;
          url = TargetURL (config s1);
          s2 = emit ConfigRUnlock s1
      in case newRequest env url of
           Inl e \<Rightarrow> (Continue, emit (Log (RequestCreationFailed e)) s2)
         | Inr req \<Rightarrow>
             (let s3 = retry_loop env client req 0 s2;
                  (r, s4) = Intn env 10 s3
              in (Next, emit (Sleep (int r * Millisecond)) s4)))"

subsection \<open>Goroutines, channels and the WaitGroup\<close>

text \<open>A buffered channel of \<^verbatim>\<open>struct{}\<close>: how many elements are queued, its capacity, and
  whether it was closed. A send succeeds while the buffer has room, a receive while an
  element is queued. A channel is named by its position in the list \<open>chans\<close> of the
  channels that \<^verbatim>\<open>make\<close> has built.\<close>

record Chan =
  queued :: nat
  capacity :: nat
  closed :: bool

text \<open>Where a goroutine is. A worker of \<^verbatim>\<open>main.go\<close> is \<open>AtLoop\<close>. A rate-limited worker
  starts \<open>AtRange\<close>, evaluates the range expression \<^verbatim>\<open>jobQueue\<close> once and is from then on
  \<open>Receiving\<close> from that channel. A worker that has left its function, and has run the
  deferred \<^verbatim>\<open>Done\<close>, is \<open>Returned\<close>. The producer of the rate-limited file,
  \<^verbatim>\<open>for { jobQueue <- struct{}{} }\<close>, is \<open>AtSend\<close> before it evaluates the channel operand
  and \<open>Sending\<close> to that channel until the send succeeds. The goroutine that calls
  \<^verbatim>\<open>RestartWorkers\<close> is \<open>Idle\<close> outside the call, \<open>Entered\<close> at its first line and
  \<open>Waiting\<close> inside \<^verbatim>\<open>workerWg.Wait()\<close>.\<close>

datatype WorkerPc = AtLoop | AtRange | Receiving "nat option" | Returned

datatype ProducerPc = AtSend | Sending "nat option"

datatype CallerPc = Idle | Entered | Waiting

text \<open>The whole process: the globals, the channels, and the goroutines. A worker is the
  number of its client and its place.\<close>

record Sys = Globals +
  chans :: "Chan list"
  workers :: "(nat \<times> WorkerPc) list"
  producers :: "ProducerPc list"
  caller :: CallerPc

definition init :: Sys where
  "init =
     \<lparr>config = zero_Config, reqCounter = 0, lastModTime = 0, workerWg = 0,
      workersActive = False, jobQueue = None, panicked = None, trace = [],
      doCalls = 0, randCalls = 0, clients = 0,
      chans = [], workers = [], producers = [], caller = Idle\<rparr>"

definition panic :: "Panic \<Rightarrow> 'a Globals_scheme \<Rightarrow> 'a Globals_scheme" where
  "panic p s = s\<lparr>panicked := Some p\<rparr>"

text \<open>\<^verbatim>\<open>workerWg.Add(n)\<close> and \<^verbatim>\<open>wg.Done()\<close>; \<^verbatim>\<open>Done\<close> on a zero counter panics.
  \<^verbatim>\<open>workerWg.Wait()\<close> returns only while the counter is zero: see the callers' steps.\<close>

definition WaitGroup_Add :: "nat \<Rightarrow> 'a Globals_scheme \<Rightarrow> 'a Globals_scheme" where
  "WaitGroup_Add n s = s\<lparr>workerWg := workerWg s + n\<rparr>"

definition WaitGroup_Done :: "'a Globals_scheme \<Rightarrow> 'a Globals_scheme" where
  "WaitGroup_Done s =
     (if workerWg s = 0 then panic NegativeWaitGroupCounter s
      else s\<lparr>workerWg := workerWg s - 1\<rparr>)"

text \<open>\<^verbatim>\<open>go worker(client, &workerWg)\<close>: a new goroutine at the entry of its function.\<close>

definition go_worker :: "WorkerPc \<Rightarrow> nat \<Rightarrow> Sys \<Rightarrow> Sys" where
  "go_worker entry client s = s\<lparr>workers := workers s @ [(client, entry)]\<rparr>"

text \<open>\<^verbatim>\<open>for i := 0; i < config.Concurrency; i++ { workerWg.Add(1); go worker(client, &workerWg) }\<close>,
  the same text in both files, started at \<open>i\<close>.\<close>

function spawn_loop :: "WorkerPc \<Rightarrow> nat \<Rightarrow> int \<Rightarrow> Sys \<Rightarrow> Sys" where
  "spawn_loop entry client i s =
     (if i < Concurrency (config s)
      then spawn_loop entry client (i + 1) (go_worker entry client (WaitGroup_Add 1 s))
      else s)"
  by pat_completeness auto
termination
  by (relation "measure (\<lambda>(entry, client, i, s). nat (Concurrency (config s) - i))")
     (auto simp: go_worker_def WaitGroup_Add_def)

declare spawn_loop.simps [simp del]

subsection \<open>\<^verbatim>\<open>RestartWorkers\<close> of \<^verbatim>\<open>main.go\<close>\<close>

text \<open>The lines after the join: log, a fresh client, a fresh WaitGroup, the flag, the
  spawn loop.\<close>

definition start_simple :: "Sys \<Rightarrow> Sys" where
  "start_simple s =
     (let s1 = emit (Log (StartingNewWorkers (Concurrency (config s)))) s;
          client = clients s1;
          s2 = s1\<lparr>clients := clients s1 + 1\<rparr>;
          s3 = s2\<lparr>workerWg := 0\<rparr>;
          s4 = s3\<lparr>workersActive := True\<rparr>
      in spawn_loop AtLoop client 0 s4)"

text \<open>One step of the goroutine inside \<^verbatim>\<open>RestartWorkers\<close>. \<^verbatim>\<open>main.go\<close> does nothing to the
  workers before it waits. While the counter is not zero, \<^verbatim>\<open>Wait\<close> does not return
  and the step changes nothing.\<close>

definition RestartWorkers_simple :: "Sys \<Rightarrow> Sys" where
  "RestartWorkers_simple s =
     (case caller s of
        Idle \<Rightarrow> s
      | Entered \<Rightarrow>
          if workersActive s
          then (emit (Log StoppingWorkers) s)\<lparr>caller := Waiting\<rparr>
          else (start_simple s)\<lparr>caller := Idle\<rparr>
      | Waiting \<Rightarrow>
          if workerWg s = 0 then (start_simple s)\<lparr>caller := Idle\<rparr> else s)"

subsection \<open>\<^verbatim>\<open>RestartWorkers\<close> of the rate-limited file\<close>

text \<open>\<^verbatim>\<open>close(ch)\<close>: closing the nil channel or a closed channel panics. (A channel number
  is always below the length of \<open>chans\<close>; the test only makes the function total.)\<close>

definition close_chan :: "nat option \<Rightarrow> Sys \<Rightarrow> Sys" where
  "close_chan q s =
     (case q of
        None \<Rightarrow> panic CloseOfNilChannel s
      | Some c \<Rightarrow>
          if c < length (chans s) then
            (if closed (chans s ! c) then panic CloseOfClosedChannel s
             else s\<lparr>chans := (chans s)[c := (chans s ! c)\<lparr>closed := True\<rparr>]\<rparr>)
          else s)"

text \<open>The lines after the join. \<^verbatim>\<open>make(chan struct{}, n)\<close> panics when \<open>n\<close> is negative;
  the flag is already set by then. The last statement starts the producer.\<close>

definition start_rl :: "Sys \<Rightarrow> Sys" where
  "start_rl s =
     (let s1 = emit (Log (StartingNewWorkers (Concurrency (config s)))) s;
          client = clients s1;
          s2 = s1\<lparr>clients := clients s1 + 1\<rparr>;
          s3 = s2\<lparr>workerWg := 0\<rparr>;
          s4 = s3\<lparr>workersActive := True\<rparr>
      in if Concurrency (config s4) < 0 then panic MakechanSizeOutOfRange s4
         else
           (let s5 = s4\<lparr>jobQueue := Some (length (chans s4)),
                         chans := chans s4 @
                           [\<lparr>queued = 0, capacity = nat (Concurrency (config s4)),
                             closed = False\<rparr>]\<rparr>;
                s6 = spawn_loop AtRange client 0 s5
            in s6\<lparr>producers := producers s6 @ [AtSend]\<rparr>))"

definition returned :: "Sys \<Rightarrow> Sys" where
  "returned s = (if panicked s = None then s\<lparr>caller := Idle\<rparr> else s)"

definition RestartWorkers_rl :: "Sys \<Rightarrow> Sys" where
  "RestartWorkers_rl s =
     (case caller s of
        Idle \<Rightarrow> s
      | Entered \<Rightarrow>
          if workersActive s then
            (let s1 = close_chan (jobQueue s) (emit (Log StoppingWorkers) s)
             in if panicked s1 = None then s1\<lparr>caller := Waiting\<rparr> else s1)
          else returned (start_rl s)
      | Waiting \<Rightarrow>
          if workerWg s = 0 then returned (start_rl s) else s)"

subsection \<open>The steps of the other goroutines\<close>

text \<open>A worker leaves its function: the deferred \<^verbatim>\<open>Done\<close> runs.\<close>

definition worker_exit :: "nat \<Rightarrow> nat \<Rightarrow> Sys \<Rightarrow> Sys" where
  "worker_exit k client s =
     (WaitGroup_Done s)\<lparr>workers := (workers s)[k := (client, Returned)]\<rparr>"

text \<open>Worker \<open>k\<close> of \<^verbatim>\<open>main.go\<close> runs its loop body once.\<close>

definition worker_simple :: "Env \<Rightarrow> nat \<Rightarrow> Sys \<Rightarrow> Sys" where
  "worker_simple env k s =
     (if k < length (workers s) then
        (case workers s ! k of
           (client, AtLoop) \<Rightarrow>
             (case worker_simple_body env client s of
                (Return, s1) \<Rightarrow> worker_exit k client s1
              | (Next, s1) \<Rightarrow> s1
              | (Continue, s1) \<Rightarrow> s1)
         | (client, AtRange) \<Rightarrow> s
         | (client, Receiving q) \<Rightarrow> s
         | (client, Returned) \<Rightarrow> s)
      else s)"

text \<open>Rate-limited worker \<open>k\<close> takes a step: it evaluates the range expression; or it
  receives a job and runs the body; or, the channel being closed and empty, it leaves
  the loop and returns; or it stays blocked.\<close>

definition worker_rl :: "Env \<Rightarrow> nat \<Rightarrow> Sys \<Rightarrow> Sys" where
  "worker_rl env k s =
     (if k < length (workers s) then
        (case workers s ! k of
           (client, AtLoop) \<Rightarrow> s
         | (client, AtRange) \<Rightarrow>
             s\<lparr>workers := (workers s)[k := (client, Receiving (jobQueue s))]\<rparr>
         | (client, Receiving None) \<Rightarrow> s
         | (client, Receiving (Some c)) \<Rightarrow>
             if c < length (chans s) then
               (let ch = chans s ! c in
                if 0 < queued ch then
                  (case worker_rl_body env client
                          (s\<lparr>chans := (chans s)[c := ch\<lparr>queued := queued ch - 1\<rparr>]\<rparr>) of
                     (Return, s1) \<Rightarrow> worker_exit k client s1
                   | (Next, s1) \<Rightarrow> s1
                   | (Continue, s1) \<Rightarrow> s1)
                else if closed ch then worker_exit k client s
                else s)
             else s
         | (client, Returned) \<Rightarrow> s)
      else s)"

text \<open>Producer \<open>k\<close> takes a step: it reads the global \<^verbatim>\<open>jobQueue\<close>; or it completes the
  send; or it panics because the channel is closed; or it stays blocked.\<close>

definition producer :: "nat \<Rightarrow> Sys \<Rightarrow> Sys" where
  "producer k s =
     (if k < length (producers s) then
        (case producers s ! k of
           AtSend \<Rightarrow> s\<lparr>producers := (producers s)[k := Sending (jobQueue s)]\<rparr>
         | Sending None \<Rightarrow> s
         | Sending (Some c) \<Rightarrow>
             if c < length (chans s) then
               (let ch = chans s ! c in
                if closed ch then panic SendOnClosedChannel s
                else if queued ch < capacity ch then
                  s\<lparr>chans := (chans s)[c := ch\<lparr>queued := queued ch + 1\<rparr>],
                    producers := (producers s)[k := AtSend]\<rparr>
                else s)
             else s)
      else s)"

text \<open>One iteration of \<^verbatim>\<open>MonitorConfig\<close>: \<^verbatim>\<open>if LoadConfig() { RestartWorkers() }\<close>. The
  watcher is one goroutine, so no tick is served while it is inside \<^verbatim>\<open>RestartWorkers\<close>.\<close>

definition MonitorConfig_tick :: "Env \<Rightarrow> Source \<Rightarrow> Sys \<Rightarrow> Sys" where
  "MonitorConfig_tick env src s =
     (if caller s = Idle then
        (case LoadConfig (json_decode env) src s of
           (True, s1) \<Rightarrow> s1\<lparr>caller := Entered\<rparr>
         | (False, s1) \<Rightarrow> s1)
      else s)"

text \<open>\<^verbatim>\<open>main\<close>: the initial \<^verbatim>\<open>LoadConfig()\<close>, whose answer is dropped, then the call of
  \<^verbatim>\<open>RestartWorkers()\<close>. The watcher's first tick comes five seconds later, so its calls
  of \<^verbatim>\<open>RestartWorkers\<close> follow this one and each other.\<close>

definition main_start :: "Env \<Rightarrow> Source \<Rightarrow> Sys" where
  "main_start env src = (snd (LoadConfig (json_decode env) src init))\<lparr>caller := Entered\<rparr>"

text \<open>The workers that have not returned.\<close>

definition live :: "Sys \<Rightarrow> nat" where
  "live s = length (filter (\<lambda>w. snd w \<noteq> Returned) (workers s))"

subsection \<open>Schedules\<close>

text \<open>A schedule says which goroutine takes the next step. After a panic the process is
  gone and nothing takes a step. The steps are coarse: a worker runs a whole loop body,
  the caller runs \<^verbatim>\<open>RestartWorkers\<close> up to the wait and, once the wait returns, the lines
  after it. A blocked goroutine's step changes nothing. So every run of the model is a
  run of the program in which no goroutine is preempted inside such a step. The
  producer's read of the global \<^verbatim>\<open>jobQueue\<close> and its send are two steps, as they are two
  operations of the program, and the read is not synchronised with the assignment in
  \<^verbatim>\<open>RestartWorkers\<close>.\<close>

datatype Action = Poll Source | Restart | Work nat | Produce nat

definition step_simple :: "Env \<Rightarrow> Action \<Rightarrow> Sys \<Rightarrow> Sys" where
  "step_simple env a s =
     (if panicked s \<noteq> None then s
      else case a of
             Poll src \<Rightarrow> MonitorConfig_tick env src s
           | Restart \<Rightarrow> RestartWorkers_simple s
           | Work k \<Rightarrow> worker_simple env k s
           | Produce k \<Rightarrow> s)"

definition step_rl :: "Env \<Rightarrow> Action \<Rightarrow> Sys \<Rightarrow> Sys" where
  "step_rl env a s =
     (if panicked s \<noteq> None then s
      else case a of
             Poll src \<Rightarrow> MonitorConfig_tick env src s
           | Restart \<Rightarrow> RestartWorkers_rl s
           | Work k \<Rightarrow> worker_rl env k s
           | Produce k \<Rightarrow> producer k s)"

fun run_simple :: "Env \<Rightarrow> Action list \<Rightarrow> Sys \<Rightarrow> Sys" where
  "run_simple env [] s = s"
| "run_simple env (a # as) s = run_simple env as (step_simple env a s)"

fun run_rl :: "Env \<Rightarrow> Action list \<Rightarrow> Sys \<Rightarrow> Sys" where
  "run_rl env [] s = s"
| "run_rl env (a # as) s = run_rl env as (step_rl env a s)"

subsection \<open>Concrete inputs\<close>

text \<open>A decoder that knows four file contents, a network that answers 200 to every
  request, one that refuses every connection, and some file-system views.\<close>

definition example_decode :: "string \<Rightarrow> error + Config" where
  "example_decode bytes =
     (if bytes = ''{2,http://a}'' then Inr \<lparr>TargetURL = ''http://a'', Concurrency = 2\<rparr>
      else if bytes = ''{1,http://a}'' then Inr \<lparr>TargetURL = ''http://a'', Concurrency = 1\<rparr>
      else if bytes = ''{0,}'' then Inr \<lparr>TargetURL = [], Concurrency = 0\<rparr>
      else if bytes = ''{-3,}'' then Inr \<lparr>TargetURL = [], Concurrency = - 3\<rparr>
      else Inl ''invalid character'')"

definition example_env :: Env where
  "example_env =
     \<lparr>json_decode = example_decode,
      newRequest = (\<lambda>url. if url = ''%'' then Inl ''invalid URL escape'' else Inr url),
      transport = (\<lambda>k. Inr \<lparr>StatusCode = 200\<rparr>),
      draw = (\<lambda>k. 7 * k + 250)\<rparr>"

definition failing_env :: Env where
  "failing_env = example_env\<lparr>transport := (\<lambda>k. Inl ''connection refused'')\<rparr>"

definition source :: "Time \<Rightarrow> string \<Rightarrow> Source" where
  "source modTime bytes = \<lparr>stat_result = Inr modTime, open_result = Inr bytes\<rparr>"

definition missing_source :: Source where
  "missing_source =
     \<lparr>stat_result = Inl ''no such file or directory'',
      open_result = Inl ''no such file or directory''\<rparr>"

text \<open>The state after the file \<^verbatim>\<open>{"target_url":"http://a","concurrency":2}\<close>, modified
  at instant 10, has been loaded.\<close>

definition good_Config :: Config where
  "good_Config = \<lparr>TargetURL = ''http://a'', Concurrency = 2\<rparr>"

definition loaded :: Sys where
  "loaded = snd (LoadConfig example_decode (source 10 ''{2,http://a}'') init)"

text \<open>Two schedules of the rate-limited process, started with concurrency 1; the watcher
  then finds concurrency 2. In the first the producer has just completed a send when
  the queue is closed, and takes its next step only after the restart. In the second
  the producer is inside a send on the full queue when the queue is closed.\<close>

definition survivor_schedule :: "Action list" where
  "survivor_schedule =
     [Restart, Work 0, Produce 0, Produce 0,
      Poll (source 20 ''{2,http://a}''), Restart,
      Work 0, Work 0, Restart,
      Produce 0, Produce 0, Produce 1, Produce 1]"

definition panic_schedule :: "Action list" where
  "panic_schedule =
     [Restart, Work 0, Produce 0, Produce 0, Produce 0, Produce 0,
      Poll (source 20 ''{2,http://a}''), Restart,
      Produce 0, Work 0, Restart]"

section \<open>Properties\<close>

subsection \<open>ConfigStore\<close>

lemma LoadConfig_stat_error:
  "stat_result src = Inl e \<Longrightarrow>
   LoadConfig decode src s = (False, emit (Log (FailedToOpenConfig e)) s)"
  by (simp add: LoadConfig_def)

lemma LoadConfig_unchanged_marker:
  "stat_result src = Inr (lastModTime s) \<Longrightarrow> LoadConfig decode src s = (False, s)"
  by (simp add: LoadConfig_def)

lemma LoadConfig_success:
  "stat_result src = Inr mt \<Longrightarrow> mt \<noteq> lastModTime s \<Longrightarrow> open_result src = Inr bytes \<Longrightarrow>
   decode bytes = Inr c \<Longrightarrow>
   LoadConfig decode src s =
     (True, s\<lparr>config := c, lastModTime := mt,
              trace := trace s @ [ConfigLock, WriteConfig c, ConfigUnlock, Log (ConfigUpdated c)]\<rparr>)"
  by (simp add: LoadConfig_def emit_def Let_def)

lemma LoadConfig_true_iff:
  "fst (LoadConfig decode src s) \<longleftrightarrow>
     (\<exists>mt bytes c. stat_result src = Inr mt \<and> mt \<noteq> lastModTime s \<and>
        open_result src = Inr bytes \<and> decode bytes = Inr c)"
  by (auto simp: LoadConfig_def Let_def split: sum.splits)

lemma reloads_unchanged_marker:
  "\<forall>src \<in> set srcs. stat_result src = Inr (lastModTime s) \<Longrightarrow>
   reloads decode srcs s = (replicate (length srcs) False, s)"
  by (induction srcs) (simp_all add: LoadConfig_unchanged_marker)

text \<open>
  \<^bold>\<open>Claim C3.\<close> Whenever the configuration source is unreadable (\<^verbatim>\<open>os.Stat\<close> fails, or the
  marker differs and \<^verbatim>\<open>os.Open\<close> fails), or the marker differs from the stored one but
  the content fails to parse, \<^verbatim>\<open>LoadConfig\<close> returns false, and the stored configuration
  and the modification marker are what they were before the call. Nothing but the log
  has changed.
\<close>

theorem LoadConfig_failure_keeps_state:
  assumes "isl (stat_result src) \<or>
           (\<exists>mt. stat_result src = Inr mt \<and> mt \<noteq> lastModTime s \<and>
              (isl (open_result src) \<or>
               (\<exists>bytes. open_result src = Inr bytes \<and> isl (decode bytes))))"
  shows "fst (LoadConfig decode src s) = False \<and>
         config (snd (LoadConfig decode src s)) = config s \<and>
         lastModTime (snd (LoadConfig decode src s)) = lastModTime s \<and>
         snd (LoadConfig decode src s) = s\<lparr>trace := trace (snd (LoadConfig decode src s))\<rparr>"
  using assms
  by (auto simp: LoadConfig_def emit_def isl_def split: sum.splits)

lemma loaded_eq:
  "loaded =
     init\<lparr>config := good_Config, lastModTime := 10,
           trace := [ConfigLock, WriteConfig good_Config, ConfigUnlock,
                     Log (ConfigUpdated good_Config)]\<rparr>"
  by (simp add: loaded_def LoadConfig_def source_def example_decode_def init_def emit_def
        Let_def good_Config_def)

text \<open>The scenario of the specification: a good file is loaded, then the file is
  overwritten with text that is not JSON and its timestamp moves; and the file
  disappears.\<close>

theorem LoadConfig_failure_keeps_state_witness:
  "fst (LoadConfig example_decode (source 11 ''{2,http'') loaded) = False \<and>
   config (snd (LoadConfig example_decode (source 11 ''{2,http'') loaded)) = good_Config \<and>
   lastModTime (snd (LoadConfig example_decode (source 11 ''{2,http'') loaded)) = 10 \<and>
   fst (LoadConfig example_decode missing_source loaded) = False \<and>
   config (snd (LoadConfig example_decode missing_source loaded)) = good_Config \<and>
   lastModTime (snd (LoadConfig example_decode missing_source loaded)) = 10"
proof -
  have malformed:
    "isl (stat_result (source 11 ''{2,http'')) \<or>
     (\<exists>mt. stat_result (source 11 ''{2,http'') = Inr mt \<and> mt \<noteq> lastModTime loaded \<and>
        (isl (open_result (source 11 ''{2,http'')) \<or>
         (\<exists>bytes. open_result (source 11 ''{2,http'') = Inr bytes \<and>
            isl (example_decode bytes))))"
    by (simp add: source_def loaded_eq example_decode_def)
  have missing:
    "isl (stat_result missing_source) \<or>
     (\<exists>mt. stat_result missing_source = Inr mt \<and> mt \<noteq> lastModTime loaded \<and>
        (isl (open_result missing_source) \<or>
         (\<exists>bytes. open_result missing_source = Inr bytes \<and> isl (example_decode bytes))))"
    by (simp add: missing_source_def)
  have cfg: "config loaded = good_Config" and mt: "lastModTime loaded = 10"
    by (simp_all add: loaded_eq)
  show ?thesis
    using LoadConfig_failure_keeps_state [OF malformed]
          LoadConfig_failure_keeps_state [OF missing]
    by (simp add: cfg mt)
qed

text \<open>
  \<^bold>\<open>Claim C4.\<close> \<^verbatim>\<open>LoadConfig\<close> returns true exactly when the source's modification marker
  differs from the stored marker and the content is read and parses. In that case the
  new state is the old one with the whole configuration replaced by the decoded value,
  the write standing between \<^verbatim>\<open>configLock.Lock()\<close> and \<^verbatim>\<open>configLock.Unlock()\<close>, and with
  the marker set to the source's. Called any number of times on sources whose marker is
  the stored one, it returns false each time and leaves the whole state as it was.
\<close>

theorem LoadConfig_true_iff_changed_and_parses:
  "(fst (LoadConfig decode src s) \<longleftrightarrow>
      (\<exists>mt bytes c. stat_result src = Inr mt \<and> mt \<noteq> lastModTime s \<and>
         open_result src = Inr bytes \<and> decode bytes = Inr c)) \<and>
   (\<forall>mt bytes c.
      stat_result src = Inr mt \<and> mt \<noteq> lastModTime s \<and>
      open_result src = Inr bytes \<and> decode bytes = Inr c \<longrightarrow>
      snd (LoadConfig decode src s) =
        s\<lparr>config := c, lastModTime := mt,
           trace := trace s @ [ConfigLock, WriteConfig c, ConfigUnlock, Log (ConfigUpdated c)]\<rparr>) \<and>
   ((\<forall>src \<in> set srcs. stat_result src = Inr (lastModTime s)) \<longrightarrow>
      reloads decode srcs s = (replicate (length srcs) False, s))"
proof (intro conjI allI impI)
  show "fst (LoadConfig decode src s) \<longleftrightarrow>
      (\<exists>mt bytes c. stat_result src = Inr mt \<and> mt \<noteq> lastModTime s \<and>
         open_result src = Inr bytes \<and> decode bytes = Inr c)"
    by (rule LoadConfig_true_iff)
next
  fix mt bytes c
  assume "stat_result src = Inr mt \<and> mt \<noteq> lastModTime s \<and>
      open_result src = Inr bytes \<and> decode bytes = Inr c"
  then show "snd (LoadConfig decode src s) =
        s\<lparr>config := c, lastModTime := mt,
           trace := trace s @ [ConfigLock, WriteConfig c, ConfigUnlock, Log (ConfigUpdated c)]\<rparr>"
    by (simp add: LoadConfig_success)
next
  assume "\<forall>src \<in> set srcs. stat_result src = Inr (lastModTime s)"
  then show "reloads decode srcs s = (replicate (length srcs) False, s)"
    by (rule reloads_unchanged_marker)
qed

theorem LoadConfig_true_iff_changed_and_parses_witness:
  "fst (LoadConfig example_decode (source 10 ''{2,http://a}'') init) \<and>
   config (snd (LoadConfig example_decode (source 10 ''{2,http://a}'') init)) = good_Config \<and>
   lastModTime (snd (LoadConfig example_decode (source 10 ''{2,http://a}'') init)) = 10 \<and>
   reloads example_decode
     [source 10 ''{2,http://a}'', source 10 ''{1,http://a}'', source 10 ''{2,http''] loaded =
     ([False, False, False], loaded)"
proof -
  have parses:
    "stat_result (source 10 ''{2,http://a}'') = Inr 10 \<and> 10 \<noteq> lastModTime init \<and>
     open_result (source 10 ''{2,http://a}'') = Inr ''{2,http://a}'' \<and>
     example_decode ''{2,http://a}'' = Inr good_Config"
    by (simp add: source_def init_def example_decode_def good_Config_def)
  have same:
    "\<forall>src \<in> set [source 10 ''{2,http://a}'', source 10 ''{1,http://a}'', source 10 ''{2,http''].
       stat_result src = Inr (lastModTime loaded)"
    by (simp add: source_def loaded_eq)
  note first = LoadConfig_true_iff_changed_and_parses
      [of example_decode "source 10 ''{2,http://a}''" init "[]"]
  note again = LoadConfig_true_iff_changed_and_parses
      [of example_decode "source 10 ''{2,http://a}''" loaded
          "[source 10 ''{2,http://a}'', source 10 ''{1,http://a}'', source 10 ''{2,http'']"]
  have "fst (LoadConfig example_decode (source 10 ''{2,http://a}'') init)"
    using first parses by blast
  moreover have "snd (LoadConfig example_decode (source 10 ''{2,http://a}'') init) =
      init\<lparr>config := good_Config, lastModTime := 10,
            trace := trace init @ [ConfigLock, WriteConfig good_Config, ConfigUnlock,
                                   Log (ConfigUpdated good_Config)]\<rparr>"
    using first parses by blast
  moreover have "reloads example_decode
     [source 10 ''{2,http://a}'', source 10 ''{1,http://a}'', source 10 ''{2,http''] loaded =
     (replicate (length [source 10 ''{2,http://a}'', source 10 ''{1,http://a}'',
        source 10 ''{2,http'']) False, loaded)"
    using again same by blast
  ultimately show ?thesis by simp
qed


subsection \<open>The workers: retries and successes\<close>

lemma retry_loop_done:
  "\<not> i < maxRetries \<Longrightarrow> retry_loop env client req i s = s"
  by (subst retry_loop.simps) simp

lemma retry_loop_success:
  "i < maxRetries \<Longrightarrow> transport env (doCalls s) = Inr resp \<Longrightarrow>
   retry_loop env client req i s =
     s\<lparr>trace := trace s @ [HttpDo client req, BodyClose resp],
       doCalls := doCalls s + 1,
       reqCounter := reqCounter s + 1\<rparr>"
  by (subst retry_loop.simps) (simp add: client_Do_def emit_def AddUint64_def)

lemma retry_loop_failure:
  "i < maxRetries \<Longrightarrow> transport env (doCalls s) = Inl e \<Longrightarrow>
   retry_loop env client req i s =
     retry_loop env client req (i + 1)
       (s\<lparr>doCalls := doCalls s + 1,
          randCalls := randCalls s + 1,
          trace := trace s @
             [HttpDo client req, Log (RequestFailedAttempt (i + 1) e),
              Sleep (int (draw env (randCalls s) mod 100) * Millisecond)]\<rparr>)"
  by (subst retry_loop.simps) (simp add: client_Do_def emit_def Intn_def Let_def)

lemma retry_loop_three_failures:
  assumes f0: "transport env (doCalls s) = Inl e0"
    and f1: "transport env (doCalls s + 1) = Inl e1"
    and f2: "transport env (doCalls s + 2) = Inl e2"
  shows "retry_loop env client req 0 s =
     s\<lparr>trace := trace s @
           [HttpDo client req, Log (RequestFailedAttempt 1 e0),
            Sleep (int (draw env (randCalls s) mod 100) * Millisecond),
            HttpDo client req, Log (RequestFailedAttempt 2 e1),
            Sleep (int (draw env (randCalls s + 1) mod 100) * Millisecond),
            HttpDo client req, Log (RequestFailedAttempt 3 e2),
            Sleep (int (draw env (randCalls s + 2) mod 100) * Millisecond)],
       doCalls := doCalls s + 3,
       randCalls := randCalls s + 3\<rparr>"
proof -
  define s1 where "s1 =
     s\<lparr>doCalls := doCalls s + 1, randCalls := randCalls s + 1,
       trace := trace s @
           [HttpDo client req, Log (RequestFailedAttempt 1 e0),
            Sleep (int (draw env (randCalls s) mod 100) * Millisecond)]\<rparr>"
  define s2 where "s2 =
     s1\<lparr>doCalls := doCalls s1 + 1, randCalls := randCalls s1 + 1,
       trace := trace s1 @
           [HttpDo client req, Log (RequestFailedAttempt 2 e1),
            Sleep (int (draw env (randCalls s1) mod 100) * Millisecond)]\<rparr>"
  define s3 where "s3 =
     s2\<lparr>doCalls := doCalls s2 + 1, randCalls := randCalls s2 + 1,
       trace := trace s2 @
           [HttpDo client req, Log (RequestFailedAttempt 3 e2),
            Sleep (int (draw env (randCalls s2) mod 100) * Millisecond)]\<rparr>"
  have d1: "doCalls s1 = doCalls s + 1" and d2: "doCalls s2 = doCalls s + 2"
    by (simp_all add: s1_def s2_def)
  have "retry_loop env client req 0 s = retry_loop env client req 1 s1"
    unfolding s1_def
    using retry_loop_failure [of 0 env s e0 client req] f0
    by (simp add: maxRetries_def)
  also have "\<dots> = retry_loop env client req 2 s2"
    unfolding s2_def
    using retry_loop_failure [of 1 env s1 e1 client req] f1 d1
    by (simp add: maxRetries_def)
  also have "\<dots> = retry_loop env client req 3 s3"
    unfolding s3_def
    using retry_loop_failure [of 2 env s2 e2 client req] f2 d2
    by (simp add: maxRetries_def)
  also have "\<dots> = s3"
    by (simp add: retry_loop_done maxRetries_def)
  finally show ?thesis
    by (simp add: s1_def s2_def s3_def)
qed

lemma worker_simple_body_failure:
  "newRequest env (TargetURL (config s)) = Inr req \<Longrightarrow> transport env (doCalls s) = Inl e \<Longrightarrow>
   worker_simple_body env client s =
     (Continue,
      s\<lparr>doCalls := doCalls s + 1,
        trace := trace s @
          [ConfigRLock, ConfigRUnlock, HttpDo client req, Log (RequestFailed e)]\<rparr>)"
  by (simp add: worker_simple_body_def client_Do_def emit_def Let_def)

lemma worker_simple_body_success:
  "newRequest env (TargetURL (config s)) = Inr req \<Longrightarrow> transport env (doCalls s) = Inr resp \<Longrightarrow>
   worker_simple_body env client s =
     (Next,
      s\<lparr>reqCounter := reqCounter s + 1,
        doCalls := doCalls s + 1,
        trace := trace s @ [ConfigRLock, ConfigRUnlock, HttpDo client req, BodyClose resp]\<rparr>)"
  by (simp add: worker_simple_body_def client_Do_def emit_def AddUint64_def Let_def)

lemma worker_rl_body_three_failures:
  assumes "newRequest env (TargetURL (config s)) = Inr req"
    and "transport env (doCalls s) = Inl e0"
    and "transport env (doCalls s + 1) = Inl e1"
    and "transport env (doCalls s + 2) = Inl e2"
  shows "worker_rl_body env client s =
       (Next,
        s\<lparr>doCalls := doCalls s + 3,
           randCalls := randCalls s + 4,
           trace := trace s @
              [ConfigRLock, ConfigRUnlock,
               HttpDo client req, Log (RequestFailedAttempt 1 e0),
               Sleep (int (draw env (randCalls s) mod 100) * Millisecond),
               HttpDo client req, Log (RequestFailedAttempt 2 e1),
               Sleep (int (draw env (randCalls s + 1) mod 100) * Millisecond),
               HttpDo client req, Log (RequestFailedAttempt 3 e2),
               Sleep (int (draw env (randCalls s + 2) mod 100) * Millisecond),
               Sleep (int (draw env (randCalls s + 3) mod 10) * Millisecond)]\<rparr>)"
proof -
  let ?s2 = "s\<lparr>trace := trace s @ [ConfigRLock, ConfigRUnlock]\<rparr>"
  have loop: "retry_loop env client req 0 ?s2 =
     ?s2\<lparr>trace := trace ?s2 @
           [HttpDo client req, Log (RequestFailedAttempt 1 e0),
            Sleep (int (draw env (randCalls ?s2) mod 100) * Millisecond),
            HttpDo client req, Log (RequestFailedAttempt 2 e1),
            Sleep (int (draw env (randCalls ?s2 + 1) mod 100) * Millisecond),
            HttpDo client req, Log (RequestFailedAttempt 3 e2),
            Sleep (int (draw env (randCalls ?s2 + 2) mod 100) * Millisecond)],
       doCalls := doCalls ?s2 + 3,
       randCalls := randCalls ?s2 + 3\<rparr>"
    using assms by (intro retry_loop_three_failures) simp_all
  show ?thesis
    using assms(1) loop
    by (simp add: worker_rl_body_def emit_def Intn_def Let_def)
qed

text \<open>
  \<^bold>\<open>Claim C5\<close>, as amended. In the rate-limited file, a logical request whose request
  is built and whose attempts all fail: the worker calls \<^verbatim>\<open>client.Do\<close> exactly three
  times, sleeps after each failure for \<^verbatim>\<open>rand.Intn(100)\<close> milliseconds, which is at least
  0 and less than 100 milliseconds, and ends the iteration (after the closing jitter of
  \<^verbatim>\<open>rand.Intn(10)\<close> milliseconds) with \<open>reqCounter\<close> as it was. In \<^verbatim>\<open>main.go\<close> the worker
  has no retry loop: on a failure it calls \<^verbatim>\<open>client.Do\<close> once, logs, and continues
  without sleeping and without touching \<open>reqCounter\<close>.
\<close>

theorem retry_ceiling:
  assumes "newRequest env (TargetURL (config s)) = Inr req"
    and "transport env (doCalls s) = Inl e0"
    and "transport env (doCalls s + 1) = Inl e1"
    and "transport env (doCalls s + 2) = Inl e2"
  shows "worker_rl_body env client s =
       (Next,
        s\<lparr>doCalls := doCalls s + 3,
           randCalls := randCalls s + 4,
           trace := trace s @
              [ConfigRLock, ConfigRUnlock,
               HttpDo client req, Log (RequestFailedAttempt 1 e0),
               Sleep (int (draw env (randCalls s) mod 100) * Millisecond),
               HttpDo client req, Log (RequestFailedAttempt 2 e1),
               Sleep (int (draw env (randCalls s + 1) mod 100) * Millisecond),
               HttpDo client req, Log (RequestFailedAttempt 3 e2),
               Sleep (int (draw env (randCalls s + 2) mod 100) * Millisecond),
               Sleep (int (draw env (randCalls s + 3) mod 10) * Millisecond)]\<rparr>) \<and>
     doCalls (snd (worker_rl_body env client s)) = doCalls s + 3 \<and>
     reqCounter (snd (worker_rl_body env client s)) = reqCounter s \<and>
     (\<forall>k. 0 \<le> int (draw env k mod 100) * Millisecond \<and>
          int (draw env k mod 100) * Millisecond < 100 * Millisecond) \<and>
     worker_simple_body env client s =
       (Continue,
        s\<lparr>doCalls := doCalls s + 1,
           trace := trace s @
             [ConfigRLock, ConfigRUnlock, HttpDo client req, Log (RequestFailed e0)]\<rparr>)"
  using worker_rl_body_three_failures [OF assms] worker_simple_body_failure [OF assms(1,2)]
  by (simp add: Millisecond_def)

lemma loaded_fields:
  "config loaded = good_Config" "doCalls loaded = 0" "randCalls loaded = 0"
  "reqCounter loaded = 0"
  "trace loaded = [ConfigLock, WriteConfig good_Config, ConfigUnlock,
                     Log (ConfigUpdated good_Config)]"
  by (simp_all add: loaded_eq init_def)

lemma failing_env_simps:
  "newRequest failing_env ''http://a'' = Inr ''http://a''"
  "transport failing_env k = Inl ''connection refused''"
  "draw failing_env k = 7 * k + 250"
  by (simp_all add: failing_env_def example_env_def)

text \<open>Every connection refused, the draws of \<open>failing_env\<close>: three attempts, sleeps of
  50, 57 and 64 milliseconds, then 1 millisecond of jitter.\<close>

theorem retry_ceiling_witness:
  "worker_rl_body failing_env 0 loaded =
     (Next,
      loaded\<lparr>doCalls := 3, randCalls := 4,
        trace := trace loaded @
          [ConfigRLock, ConfigRUnlock,
           HttpDo 0 ''http://a'', Log (RequestFailedAttempt 1 ''connection refused''),
           Sleep (50 * Millisecond),
           HttpDo 0 ''http://a'', Log (RequestFailedAttempt 2 ''connection refused''),
           Sleep (57 * Millisecond),
           HttpDo 0 ''http://a'', Log (RequestFailedAttempt 3 ''connection refused''),
           Sleep (64 * Millisecond),
           Sleep (1 * Millisecond)]\<rparr>) \<and>
   reqCounter (snd (worker_rl_body failing_env 0 loaded)) = 0"
proof -
  have req: "newRequest failing_env (TargetURL (config loaded)) = Inr ''http://a''"
    by (simp add: loaded_fields good_Config_def failing_env_simps)
  show ?thesis
    using retry_ceiling [OF req, of "''connection refused''" "''connection refused''"
            "''connection refused''" 0]
    by (simp add: failing_env_simps loaded_fields)
qed

text \<open>The claim as stated fails on the worker of \<^verbatim>\<open>main.go\<close>: with every connection
  refused, one iteration makes one attempt, not three, and never sleeps.\<close>

theorem simple_worker_does_not_retry:
  "worker_simple_body failing_env 0 loaded =
     (Continue,
      loaded\<lparr>doCalls := 1,
        trace := trace loaded @
          [ConfigRLock, ConfigRUnlock, HttpDo 0 ''http://a'',
           Log (RequestFailed ''connection refused'')]\<rparr>) \<and>
   doCalls (snd (worker_simple_body failing_env 0 loaded)) - doCalls loaded \<noteq> 3 \<and>
   (\<forall>d. Sleep d \<notin> set (trace (snd (worker_simple_body failing_env 0 loaded))))"
proof -
  have req: "newRequest failing_env (TargetURL (config loaded)) = Inr ''http://a''"
    by (simp add: loaded_fields good_Config_def failing_env_simps)
  have body: "worker_simple_body failing_env 0 loaded =
     (Continue,
      loaded\<lparr>doCalls := 1,
        trace := trace loaded @
          [ConfigRLock, ConfigRUnlock, HttpDo 0 ''http://a'',
           Log (RequestFailed ''connection refused'')]\<rparr>)"
    using worker_simple_body_failure [OF req, of "''connection refused''" 0]
    by (simp add: failing_env_simps loaded_fields)
  show ?thesis
    by (simp add: body loaded_fields)
qed

text \<open>
  \<^bold>\<open>Claim C6.\<close> An attempt that returns a response, whatever its status code: the worker
  closes the body, adds exactly 1 to \<open>reqCounter\<close> and makes no further attempt for this
  request. In the rate-limited file this holds for each of the three attempts of the
  retry loop (the loop ends at once); in \<^verbatim>\<open>main.go\<close> for the single attempt of an
  iteration.
\<close>

theorem success_is_counted_once:
  assumes "transport env (doCalls s) = Inr resp"
  shows "(i < maxRetries \<longrightarrow>
           retry_loop env client req i s =
             s\<lparr>trace := trace s @ [HttpDo client req, BodyClose resp],
               doCalls := doCalls s + 1,
               reqCounter := reqCounter s + 1\<rparr>) \<and>
         (newRequest env (TargetURL (config s)) = Inr req \<longrightarrow>
           worker_simple_body env client s =
             (Next,
              s\<lparr>reqCounter := reqCounter s + 1,
                doCalls := doCalls s + 1,
                trace := trace s @
                  [ConfigRLock, ConfigRUnlock, HttpDo client req, BodyClose resp]\<rparr>))"
  using assms by (simp add: retry_loop_success worker_simple_body_success)

text \<open>A response with status 500, at the third attempt of the retry loop and in
  \<^verbatim>\<open>main.go\<close>.\<close>

theorem success_is_counted_once_witness:
  "retry_loop (example_env\<lparr>transport := \<lambda>k. Inr \<lparr>StatusCode = 500\<rparr>\<rparr>) 0 ''http://a'' 2 loaded =
     loaded\<lparr>trace := trace loaded @ [HttpDo 0 ''http://a'', BodyClose \<lparr>StatusCode = 500\<rparr>],
       doCalls := 1, reqCounter := 1\<rparr> \<and>
   worker_simple_body (example_env\<lparr>transport := \<lambda>k. Inr \<lparr>StatusCode = 500\<rparr>\<rparr>) 0 loaded =
     (Next,
      loaded\<lparr>reqCounter := 1, doCalls := 1,
        trace := trace loaded @
          [ConfigRLock, ConfigRUnlock, HttpDo 0 ''http://a'',
           BodyClose \<lparr>StatusCode = 500\<rparr>]\<rparr>)"
proof -
  let ?env = "example_env\<lparr>transport := \<lambda>k. Inr \<lparr>StatusCode = 500\<rparr>\<rparr>"
  have ok: "transport ?env (doCalls loaded) = Inr \<lparr>StatusCode = 500\<rparr>"
    by simp
  have req: "newRequest ?env (TargetURL (config loaded)) = Inr ''http://a''"
    by (simp add: loaded_fields good_Config_def example_env_def)
  show ?thesis
    using success_is_counted_once [OF ok, of 2 0 "''http://a''"] req
    by (simp add: loaded_fields maxRetries_def)
qed


subsection \<open>RequestCounter and the reporter\<close>

lemma completions_add:
  "((AddUint64 1) ^^ n) s = s\<lparr>reqCounter := reqCounter s + of_nat n\<rparr>"
  by (induction n) (simp_all add: AddUint64_def)

lemma counter_run_completions:
  "counter_run (replicate n Completion @ ops) s =
   counter_run ops (s\<lparr>reqCounter := reqCounter s + of_nat n\<rparr>)"
  by (induction n arbitrary: s) (simp_all add: AddUint64_def ac_simps)

lemma counter_run_conserves:
  "sum_list (fst (counter_run ops s)) + reqCounter (snd (counter_run ops s)) =
   reqCounter s + of_nat (count_list ops Completion)"
proof (induction ops arbitrary: s)
  case Nil
  show ?case by simp
next
  case (Cons op ops)
  show ?case
  proof (cases op)
    case Completion
    then show ?thesis
      using Cons.IH [of "AddUint64 1 s"] by (simp add: AddUint64_def)
  next
    case Reset
    then show ?thesis
      using Cons.IH [of "s\<lparr>reqCounter := 0\<rparr>"]
      by (simp add: SwapUint64_def case_prod_beta)
  qed
qed

lemma counter_run_exact:
  "unat (reqCounter s) + count_list ops Completion < 2 ^ 64 \<Longrightarrow>
   sum_list (map unat (fst (counter_run ops s))) + unat (reqCounter (snd (counter_run ops s))) =
   unat (reqCounter s) + count_list ops Completion"
proof (induction ops arbitrary: s)
  case Nil
  show ?case by simp
next
  case (Cons op ops)
  show ?case
  proof (cases op)
    case Completion
    have small: "unat (reqCounter s) + 1 < 2 ^ 64"
      using Cons.prems Completion by simp
    have step: "unat (reqCounter s + 1) = unat (reqCounter s) + 1"
      using small by (simp add: unat_word_ariths)
    show ?thesis
      using Cons.IH [of "AddUint64 1 s"] Cons.prems Completion step
      by (simp add: AddUint64_def)
  next
    case Reset
    have "count_list ops Completion < 2 ^ 64"
      using Cons.prems Reset by simp
    then show ?thesis
      using Cons.IH [of "s\<lparr>reqCounter := 0\<rparr>"] Reset
      by (simp add: SwapUint64_def case_prod_beta)
  qed
qed

text \<open>
  \<^bold>\<open>Claim C7.\<close> The read-and-clear is one atomic swap. After \<open>N\<close> completions, each adding
  1, a reset returns the counter's value plus \<open>N\<close> (as a \<^verbatim>\<open>uint64\<close>) and leaves 0; from a
  counter at 0 and for \<open>N\<close> below \<open>2 ^ 64\<close> it returns exactly \<open>N\<close>. In every interleaving
  of completions and resets, what the resets returned and what is left in the counter
  add up to the counter's first value plus the number of completions: nothing is lost
  and nothing is counted twice. That sum is exact as a natural number while it stays
  below \<open>2 ^ 64\<close>.
\<close>

theorem reset_reports_completions:
  "counter_run (replicate N Completion @ [Reset]) s =
     ([reqCounter s + of_nat N], s\<lparr>reqCounter := 0\<rparr>) \<and>
   (reqCounter s = 0 \<and> N < 2 ^ 64 \<longrightarrow>
      map unat (fst (counter_run (replicate N Completion @ [Reset]) s)) = [N]) \<and>
   sum_list (fst (counter_run ops s)) + reqCounter (snd (counter_run ops s)) =
     reqCounter s + of_nat (count_list ops Completion) \<and>
   (unat (reqCounter s) + count_list ops Completion < 2 ^ 64 \<longrightarrow>
      sum_list (map unat (fst (counter_run ops s))) +
        unat (reqCounter (snd (counter_run ops s))) =
      unat (reqCounter s) + count_list ops Completion)"
proof (intro conjI impI)
  show first: "counter_run (replicate N Completion @ [Reset]) s =
     ([reqCounter s + of_nat N], s\<lparr>reqCounter := 0\<rparr>)"
    by (simp add: counter_run_completions SwapUint64_def)
  show "map unat (fst (counter_run (replicate N Completion @ [Reset]) s)) = [N]"
    if "reqCounter s = 0 \<and> N < 2 ^ 64"
    using that by (simp add: first unat_of_nat)
  show "sum_list (fst (counter_run ops s)) + reqCounter (snd (counter_run ops s)) =
     reqCounter s + of_nat (count_list ops Completion)"
    by (rule counter_run_conserves)
  show "sum_list (map unat (fst (counter_run ops s))) +
        unat (reqCounter (snd (counter_run ops s))) =
      unat (reqCounter s) + count_list ops Completion"
    if "unat (reqCounter s) + count_list ops Completion < 2 ^ 64"
    using that by (rule counter_run_exact)
qed

theorem reset_reports_completions_witness:
  "counter_run [Completion, Completion, Completion, Reset] init = ([3], init) \<and>
   map unat (fst (counter_run [Completion, Completion, Completion, Reset] init)) = [3] \<and>
   sum_list (map unat
      (fst (counter_run [Completion, Reset, Completion, Completion, Reset, Completion] init))) +
     unat (reqCounter
      (snd (counter_run [Completion, Reset, Completion, Completion, Reset, Completion] init))) = 4"
proof -
  have zero: "reqCounter init = 0 \<and> (3::nat) < 2 ^ 64"
    by (simp add: init_def)
  have small: "unat (reqCounter init) +
      count_list [Completion, Reset, Completion, Completion, Reset, Completion] Completion
      < 2 ^ 64"
    by (simp add: init_def)
  have three: "replicate 3 Completion @ [Reset] = [Completion, Completion, Completion, Reset]"
    by (simp add: numeral_3_eq_3)
  show ?thesis
    using reset_reports_completions
            [of 3 init "[Completion, Reset, Completion, Completion, Reset, Completion]"]
          zero small
    by (simp add: three init_def)
qed

text \<open>
  \<^bold>\<open>Claim C8.\<close> An iteration of the reporter swaps the counter to zero and logs the count
  it read. If that count is at least 100000 it also logs the time elapsed since
  \<open>startTime\<close> and sets \<open>startTime\<close> to the clock; otherwise \<open>startTime\<close> is unchanged.
  The loop runs one such iteration per tick, and the ticker's period is one second.
\<close>

theorem LogStats_tick_reports_and_resets:
  "LogStats_tick since_now reset_now (startTime, s) =
     (if 100000 \<le> reqCounter s
      then (reset_now,
            s\<lparr>reqCounter := 0,
              trace := trace s @
                [Log (RequestsInLastSecond (reqCounter s)),
                 Log (TimeTakenFor100k (since_now - startTime))]\<rparr>)
      else (startTime,
            s\<lparr>reqCounter := 0,
              trace := trace s @ [Log (RequestsInLastSecond (reqCounter s))]\<rparr>)) \<and>
   LogStats_loop (t # ts) (startTime, s) =
     LogStats_loop ts
       (LogStats_tick (since_clock t) (reset_clock t)
          (startTime, s\<lparr>reqCounter := reqCounter s + of_nat (completions t)\<rparr>)) \<and>
   LogStats_period = 1000000000"
  by (simp add: LogStats_tick_def SwapUint64_def emit_def Let_def completions_add
        LogStats_period_def Second_def Millisecond_def)



subsection \<open>The pool of \<^verbatim>\<open>main.go\<close>: frames and invariants\<close>

lemma spawn_loop_exit:
  "Concurrency (config s) \<le> i \<Longrightarrow> spawn_loop entry client i s = s"
  by (subst spawn_loop.simps) simp

lemma spawn_loop_count:
  "i \<le> Concurrency (config s) \<Longrightarrow>
   spawn_loop entry client i s =
     s\<lparr>workerWg := workerWg s + nat (Concurrency (config s) - i),
       workers := workers s @ replicate (nat (Concurrency (config s) - i)) (client, entry)\<rparr>"
proof (induction entry client i s rule: spawn_loop.induct)
  case (1 entry client i s)
  show ?case
  proof (cases "i < Concurrency (config s)")
    case False
    with "1.prems" have "i = Concurrency (config s)" by simp
    then show ?thesis by (simp add: spawn_loop_exit)
  next
    case True
    let ?s1 = "go_worker entry client (WaitGroup_Add 1 s)"
    have cfg: "config ?s1 = config s"
      by (simp add: go_worker_def WaitGroup_Add_def)
    have le: "i + 1 \<le> Concurrency (config ?s1)"
      using True cfg by simp
    have n: "nat (Concurrency (config s) - i) = Suc (nat (Concurrency (config s) - (i + 1)))"
      using True by simp
    have "spawn_loop entry client i s = spawn_loop entry client (i + 1) ?s1"
      using True by (subst spawn_loop.simps) simp
    also have "\<dots> =
        ?s1\<lparr>workerWg := workerWg ?s1 + nat (Concurrency (config ?s1) - (i + 1)),
          workers := workers ?s1 @
            replicate (nat (Concurrency (config ?s1) - (i + 1))) (client, entry)\<rparr>"
      using "1.IH" [OF True le] .
    also have "\<dots> =
        s\<lparr>workerWg := workerWg s + nat (Concurrency (config s) - i),
          workers := workers s @ replicate (nat (Concurrency (config s) - i)) (client, entry)\<rparr>"
      by (simp add: n go_worker_def WaitGroup_Add_def)
    finally show ?thesis .
  qed
qed

lemma spawn_loop_from_zero:
  "spawn_loop entry client 0 s =
     s\<lparr>workerWg := workerWg s + nat (Concurrency (config s)),
       workers := workers s @ replicate (nat (Concurrency (config s))) (client, entry)\<rparr>"
proof (cases "0 \<le> Concurrency (config s)")
  case True
  then show ?thesis using spawn_loop_count [of 0 s entry client] by simp
next
  case False
  then show ?thesis by (simp add: spawn_loop_exit)
qed

lemma start_simple_eq:
  "start_simple s =
     s\<lparr>workerWg := nat (Concurrency (config s)),
       workersActive := True,
       trace := trace s @ [Log (StartingNewWorkers (Concurrency (config s)))],
       clients := clients s + 1,
       workers := workers s @ replicate (nat (Concurrency (config s))) (clients s, AtLoop)\<rparr>"
  by (simp add: start_simple_def Let_def spawn_loop_from_zero emit_def)

lemma worker_simple_body_frame:
  "fst (worker_simple_body env client s) \<noteq> Return \<and>
   (\<exists>r d t. snd (worker_simple_body env client s) =
      s\<lparr>reqCounter := r, trace := t, doCalls := d\<rparr>)"
proof (cases "newRequest env (TargetURL (config s))")
  case (Inl e)
  have "snd (worker_simple_body env client s) =
      s\<lparr>reqCounter := reqCounter s,
        trace := trace s @ [ConfigRLock, ConfigRUnlock, Log (RequestCreationFailed e)],
        doCalls := doCalls s\<rparr>"
    using Inl by (simp add: worker_simple_body_def emit_def Let_def)
  moreover have "fst (worker_simple_body env client s) \<noteq> Return"
    using Inl by (simp add: worker_simple_body_def emit_def Let_def)
  ultimately show ?thesis by blast
next
  case (Inr req)
  show ?thesis
  proof (cases "transport env (doCalls s)")
    case (Inl e)
    have "snd (worker_simple_body env client s) =
      s\<lparr>reqCounter := reqCounter s,
        trace := trace s @
          [ConfigRLock, ConfigRUnlock, HttpDo client req, Log (RequestFailed e)],
        doCalls := doCalls s + 1\<rparr>"
      using Inr Inl by (simp add: worker_simple_body_def client_Do_def emit_def Let_def)
    moreover have "fst (worker_simple_body env client s) \<noteq> Return"
      using Inr Inl by (simp add: worker_simple_body_def client_Do_def emit_def Let_def)
    ultimately show ?thesis by blast
  next
    case (Inr resp)
    have "snd (worker_simple_body env client s) =
      s\<lparr>reqCounter := reqCounter s + 1,
        trace := trace s @ [ConfigRLock, ConfigRUnlock, HttpDo client req, BodyClose resp],
        doCalls := doCalls s + 1\<rparr>"
      using \<open>newRequest env (TargetURL (config s)) = Inr req\<close> Inr
      by (simp add: worker_simple_body_def client_Do_def emit_def AddUint64_def Let_def)
    moreover have "fst (worker_simple_body env client s) \<noteq> Return"
      using \<open>newRequest env (TargetURL (config s)) = Inr req\<close> Inr
      by (simp add: worker_simple_body_def client_Do_def emit_def AddUint64_def Let_def)
    ultimately show ?thesis by blast
  qed
qed

lemma worker_simple_frame:
  "\<exists>r d t. worker_simple env k s = s\<lparr>reqCounter := r, trace := t, doCalls := d\<rparr>"
proof -
  have same: "\<exists>r d t. s = s\<lparr>reqCounter := r, trace := t, doCalls := d\<rparr>"
    by (rule exI [of _ "reqCounter s"], rule exI [of _ "doCalls s"],
        rule exI [of _ "trace s"]) simp
  show ?thesis
  proof (cases "k < length (workers s)")
    case False
    then show ?thesis using same by (simp add: worker_simple_def)
  next
    case True
    obtain client pc where w: "workers s ! k = (client, pc)"
      by (cases "workers s ! k")
    show ?thesis
    proof (cases pc)
      case AtLoop
      obtain fl s1 where b: "worker_simple_body env client s = (fl, s1)"
        by (cases "worker_simple_body env client s")
      from worker_simple_body_frame [of env client s] b
      have nr: "fl \<noteq> Return"
        and fr: "\<exists>r d t. s1 = s\<lparr>reqCounter := r, trace := t, doCalls := d\<rparr>"
        by simp_all
      have "worker_simple env k s = s1"
        using True w AtLoop b nr by (cases fl) (simp_all add: worker_simple_def)
      then show ?thesis using fr by simp
    qed (use True w same in \<open>simp_all add: worker_simple_def\<close>)
  qed
qed

lemma LoadConfig_frame:
  "\<exists>c m t. snd (LoadConfig decode src s) = s\<lparr>config := c, lastModTime := m, trace := t\<rparr>"
proof -
  have "snd (LoadConfig decode src s) =
      s\<lparr>config := config (snd (LoadConfig decode src s)),
        lastModTime := lastModTime (snd (LoadConfig decode src s)),
        trace := trace (snd (LoadConfig decode src s))\<rparr>"
    by (simp add: LoadConfig_def emit_def Let_def split: sum.splits)
  then show ?thesis by blast
qed

lemma MonitorConfig_tick_frame:
  "\<exists>c m t p. MonitorConfig_tick env src s =
     s\<lparr>config := c, lastModTime := m, trace := t, caller := p\<rparr> \<and>
     (caller s \<noteq> Idle \<longrightarrow> p \<noteq> Idle)"
proof (cases "caller s = Idle")
  case False
  have "s = s\<lparr>config := config s, lastModTime := lastModTime s, trace := trace s,
               caller := caller s\<rparr>"
    by simp
  then show ?thesis
    using False by (metis MonitorConfig_tick_def)
next
  case True
  obtain b s1 where l: "LoadConfig (json_decode env) src s = (b, s1)"
    by (cases "LoadConfig (json_decode env) src s")
  from LoadConfig_frame [of "json_decode env" src s] l
  obtain c m t where s1: "s1 = s\<lparr>config := c, lastModTime := m, trace := t\<rparr>"
    by auto
  show ?thesis
  proof (cases b)
    case True
    have "MonitorConfig_tick env src s =
        s\<lparr>config := c, lastModTime := m, trace := t, caller := Entered\<rparr>"
      using \<open>caller s = Idle\<close> l True s1 by (simp add: MonitorConfig_tick_def)
    then show ?thesis using \<open>caller s = Idle\<close> by blast
  next
    case False
    have "MonitorConfig_tick env src s =
        s\<lparr>config := c, lastModTime := m, trace := t, caller := caller s\<rparr>"
      using \<open>caller s = Idle\<close> l False s1 by (simp add: MonitorConfig_tick_def)
    then show ?thesis using \<open>caller s = Idle\<close> by blast
  qed
qed

text \<open>A generation with a live worker is active: no step ends a call of RestartWorkers.\<close>

lemma step_simple_blocked:
  assumes "workersActive s" and "0 < workerWg s" and "panicked s = None"
  shows "workersActive (step_simple env a s) \<and>
         workerWg (step_simple env a s) = workerWg s \<and>
         panicked (step_simple env a s) = None \<and>
         workers (step_simple env a s) = workers s \<and>
         clients (step_simple env a s) = clients s \<and>
         (caller s \<noteq> Idle \<longrightarrow> caller (step_simple env a s) \<noteq> Idle)"
proof (cases a)
  case (Poll src)
  from MonitorConfig_tick_frame [of env src s]
  obtain c m t p where
    "MonitorConfig_tick env src s = s\<lparr>config := c, lastModTime := m, trace := t, caller := p\<rparr>"
    and "caller s \<noteq> Idle \<longrightarrow> p \<noteq> Idle"
    by blast
  then show ?thesis using assms Poll by (simp add: step_simple_def)
next
  case Restart
  show ?thesis
    using assms Restart
    by (cases "caller s") (simp_all add: step_simple_def RestartWorkers_simple_def emit_def)
next
  case (Work k)
  from worker_simple_frame [of env k s]
  obtain r d t where "worker_simple env k s = s\<lparr>reqCounter := r, trace := t, doCalls := d\<rparr>"
    by blast
  then show ?thesis using assms Work by (simp add: step_simple_def)
next
  case (Produce k)
  then show ?thesis using assms by (simp add: step_simple_def)
qed

lemma run_simple_blocked:
  "workersActive s \<Longrightarrow> 0 < workerWg s \<Longrightarrow> panicked s = None \<Longrightarrow>
   workersActive (run_simple env acts s) \<and>
   workerWg (run_simple env acts s) = workerWg s \<and>
   panicked (run_simple env acts s) = None \<and>
   workers (run_simple env acts s) = workers s \<and>
   clients (run_simple env acts s) = clients s \<and>
   (caller s \<noteq> Idle \<longrightarrow> caller (run_simple env acts s) \<noteq> Idle)"
proof (induction acts arbitrary: s)
  case Nil
  then show ?case by simp
next
  case (Cons a acts)
  note st = step_simple_blocked [OF Cons.prems, of env a]
  from st have pre: "workersActive (step_simple env a s)"
    "0 < workerWg (step_simple env a s)" "panicked (step_simple env a s) = None"
    using Cons.prems by simp_all
  from Cons.IH [OF pre] st show ?case by simp
qed


lemma run_simple_append:
  "run_simple env (xs @ ys) s = run_simple env ys (run_simple env xs s)"
  by (induction xs arbitrary: s) simp_all

lemma step_simple_grows:
  "\<exists>ws. workers (step_simple env a s) = workers s @ ws \<and> (\<forall>w \<in> set ws. snd w = AtLoop)"
proof (cases "panicked s \<noteq> None")
  case True
  then show ?thesis by (simp add: step_simple_def)
next
  case False
  show ?thesis
  proof (cases a)
    case (Poll src)
    from MonitorConfig_tick_frame [of env src s]
    obtain c m t p where
      "MonitorConfig_tick env src s =
         s\<lparr>config := c, lastModTime := m, trace := t, caller := p\<rparr>"
      by blast
    then show ?thesis using False Poll by (simp add: step_simple_def)
  next
    case Restart
    have started: "workers ((start_simple s)\<lparr>caller := Idle\<rparr>) =
        workers s @ replicate (nat (Concurrency (config s))) (clients s, AtLoop)"
      by (simp add: start_simple_eq)
    have "workers (RestartWorkers_simple s) = workers s \<or>
          workers (RestartWorkers_simple s) =
            workers s @ replicate (nat (Concurrency (config s))) (clients s, AtLoop)"
      using started
      by (cases "caller s") (simp_all add: RestartWorkers_simple_def emit_def)
    then show ?thesis
      using False Restart by (auto simp: step_simple_def)
  next
    case (Work k)
    from worker_simple_frame [of env k s]
    obtain r d t where
      "worker_simple env k s = s\<lparr>reqCounter := r, trace := t, doCalls := d\<rparr>"
      by blast
    then show ?thesis using False Work by (simp add: step_simple_def)
  next
    case (Produce k)
    then show ?thesis using False by (simp add: step_simple_def)
  qed
qed

lemma run_simple_grows:
  "\<exists>ws. workers (run_simple env acts s) = workers s @ ws \<and> (\<forall>w \<in> set ws. snd w = AtLoop)"
proof (induction acts arbitrary: s)
  case Nil
  show ?case by simp
next
  case (Cons a acts)
  from step_simple_grows [of env a s]
  obtain ws1 where 1: "workers (step_simple env a s) = workers s @ ws1"
    and a1: "\<forall>w \<in> set ws1. snd w = AtLoop"
    by blast
  from Cons.IH [of "step_simple env a s"]
  obtain ws2 where 2: "workers (run_simple env acts (step_simple env a s)) =
      workers (step_simple env a s) @ ws2"
    and a2: "\<forall>w \<in> set ws2. snd w = AtLoop"
    by blast
  have "workers (run_simple env (a # acts) s) = workers s @ (ws1 @ ws2)"
    using 1 2 by simp
  moreover have "\<forall>w \<in> set (ws1 @ ws2). snd w = AtLoop"
    using a1 a2 by auto
  ultimately show ?case by blast
qed

lemma step_simple_counts:
  assumes "workerWg s = length (workers s)"
    and "\<not> workersActive s \<longrightarrow> workers s = []"
  shows "workerWg (step_simple env a s) = length (workers (step_simple env a s)) \<and>
         (\<not> workersActive (step_simple env a s) \<longrightarrow> workers (step_simple env a s) = [])"
proof (cases "panicked s \<noteq> None")
  case True
  then show ?thesis using assms by (simp add: step_simple_def)
next
  case False
  show ?thesis
  proof (cases a)
    case (Poll src)
    from MonitorConfig_tick_frame [of env src s]
    obtain c m t p where
      "MonitorConfig_tick env src s =
         s\<lparr>config := c, lastModTime := m, trace := t, caller := p\<rparr>"
      by blast
    then show ?thesis using False Poll assms by (simp add: step_simple_def)
  next
    case Restart
    show ?thesis
      using False Restart assms
      by (cases "caller s")
         (auto simp: step_simple_def RestartWorkers_simple_def emit_def start_simple_eq)
  next
    case (Work k)
    from worker_simple_frame [of env k s]
    obtain r d t where
      "worker_simple env k s = s\<lparr>reqCounter := r, trace := t, doCalls := d\<rparr>"
      by blast
    then show ?thesis using False Work assms by (simp add: step_simple_def)
  next
    case (Produce k)
    then show ?thesis using False assms by (simp add: step_simple_def)
  qed
qed

lemma run_simple_counts:
  "workerWg s = length (workers s) \<Longrightarrow> (\<not> workersActive s \<longrightarrow> workers s = []) \<Longrightarrow>
   workerWg (run_simple env acts s) = length (workers (run_simple env acts s))"
proof (induction acts arbitrary: s)
  case Nil
  then show ?case by simp
next
  case (Cons a acts)
  from step_simple_counts [OF Cons.prems, of env a]
  have "workerWg (step_simple env a s) = length (workers (step_simple env a s))"
    and "\<not> workersActive (step_simple env a s) \<longrightarrow> workers (step_simple env a s) = []"
    by simp_all
  from Cons.IH [OF this] show ?case by simp
qed

lemma main_start_fields:
  "workerWg (main_start env src) = 0" "workers (main_start env src) = []"
  "workersActive (main_start env src) = False" "caller (main_start env src) = Entered"
  "panicked (main_start env src) = None" "clients (main_start env src) = 0"
proof -
  from LoadConfig_frame [of "json_decode env" src init]
  obtain c m t where "snd (LoadConfig (json_decode env) src init) =
      init\<lparr>config := c, lastModTime := m, trace := t\<rparr>"
    by blast
  then show "workerWg (main_start env src) = 0" "workers (main_start env src) = []"
    "workersActive (main_start env src) = False" "caller (main_start env src) = Entered"
    "panicked (main_start env src) = None" "clients (main_start env src) = 0"
    by (simp_all add: main_start_def init_def)
qed


subsection \<open>The pool of \<^verbatim>\<open>main.go\<close>: restarts\<close>

lemma main_start_good:
  "main_start example_env (source 10 ''{2,http://a}'') = loaded\<lparr>caller := Entered\<rparr>"
  by (simp add: main_start_def loaded_def example_env_def)

lemma loaded_sys_fields:
  "workersActive loaded = False" "workerWg loaded = 0" "panicked loaded = None"
  "workers loaded = []" "clients loaded = 0" "caller loaded = Idle"
  "lastModTime loaded = 10" "jobQueue loaded = None" "chans loaded = []"
  "producers loaded = []"
  by (simp_all add: loaded_eq init_def)

lemma simple_first_generation:
  "run_simple example_env [Restart] (main_start example_env (source 10 ''{2,http://a}'')) =
     loaded\<lparr>workerWg := 2, workersActive := True,
       trace := trace loaded @ [Log (StartingNewWorkers 2)],
       clients := 1, workers := [(0, AtLoop), (0, AtLoop)], caller := Idle\<rparr>"
  by (simp add: main_start_good step_simple_def RestartWorkers_simple_def start_simple_eq
        loaded_sys_fields loaded_eq good_Config_def init_def numeral_2_eq_2)

lemma simple_second_call:
  "run_simple example_env [Restart, Poll (source 20 ''{1,http://a}'')]
       (main_start example_env (source 10 ''{2,http://a}'')) =
     loaded\<lparr>config := \<lparr>TargetURL = ''http://a'', Concurrency = 1\<rparr>,
       lastModTime := 20, workerWg := 2, workersActive := True,
       trace := trace loaded @
         [Log (StartingNewWorkers 2), ConfigLock,
          WriteConfig \<lparr>TargetURL = ''http://a'', Concurrency = 1\<rparr>, ConfigUnlock,
          Log (ConfigUpdated \<lparr>TargetURL = ''http://a'', Concurrency = 1\<rparr>)],
       clients := 1, workers := [(0, AtLoop), (0, AtLoop)], caller := Entered\<rparr>"
proof -
  have "run_simple example_env [Restart, Poll (source 20 ''{1,http://a}'')]
       (main_start example_env (source 10 ''{2,http://a}'')) =
     step_simple example_env (Poll (source 20 ''{1,http://a}''))
       (run_simple example_env [Restart] (main_start example_env (source 10 ''{2,http://a}'')))"
    by simp
  also have "\<dots> = loaded\<lparr>config := \<lparr>TargetURL = ''http://a'', Concurrency = 1\<rparr>,
       lastModTime := 20, workerWg := 2, workersActive := True,
       trace := trace loaded @
         [Log (StartingNewWorkers 2), ConfigLock,
          WriteConfig \<lparr>TargetURL = ''http://a'', Concurrency = 1\<rparr>, ConfigUnlock,
          Log (ConfigUpdated \<lparr>TargetURL = ''http://a'', Concurrency = 1\<rparr>)],
       clients := 1, workers := [(0, AtLoop), (0, AtLoop)], caller := Entered\<rparr>"
    unfolding simple_first_generation
    by (simp add: step_simple_def MonitorConfig_tick_def LoadConfig_def source_def
          example_env_def example_decode_def emit_def Let_def loaded_sys_fields)
  finally show ?thesis .
qed

text \<open>
  \<^bold>\<open>Claim C10\<close>, as amended. In \<^verbatim>\<open>main.go\<close>: no step of any schedule changes or removes a
  worker, so every worker, once spawned, stays in its loop; in every state reached from
  \<^verbatim>\<open>main\<close> the WaitGroup counter is the number of workers; \<^verbatim>\<open>RestartWorkers\<close> on an active
  generation only logs and goes to wait, and while the counter is positive the wait does
  not return. Therefore, once a generation with at least one worker is active, whatever
  is scheduled, the workers, the clients and the counter stay as they are and a call of
  \<^verbatim>\<open>RestartWorkers\<close> that has begun never returns.
\<close>

theorem simple_restart_blocks_forever:
  "(\<exists>ws. workers (run_simple env acts s) = workers s @ ws \<and> (\<forall>w \<in> set ws. snd w = AtLoop)) \<and>
   workerWg (run_simple env acts (main_start env src)) =
     length (workers (run_simple env acts (main_start env src))) \<and>
   (caller s = Entered \<and> workersActive s \<longrightarrow>
      RestartWorkers_simple s = s\<lparr>trace := trace s @ [Log StoppingWorkers], caller := Waiting\<rparr>) \<and>
   (caller s = Waiting \<and> 0 < workerWg s \<longrightarrow> RestartWorkers_simple s = s) \<and>
   (workersActive s \<and> 0 < workerWg s \<and> panicked s = None \<longrightarrow>
      workers (run_simple env acts s) = workers s \<and>
      clients (run_simple env acts s) = clients s \<and>
      workerWg (run_simple env acts s) = workerWg s \<and>
      (caller s \<noteq> Idle \<longrightarrow> caller (run_simple env acts s) \<noteq> Idle))"
proof (intro conjI impI)
  show "\<exists>ws. workers (run_simple env acts s) = workers s @ ws \<and> (\<forall>w \<in> set ws. snd w = AtLoop)"
    by (rule run_simple_grows)
  show "workerWg (run_simple env acts (main_start env src)) =
     length (workers (run_simple env acts (main_start env src)))"
    by (rule run_simple_counts) (simp_all add: main_start_fields)
  show "RestartWorkers_simple s = s\<lparr>trace := trace s @ [Log StoppingWorkers], caller := Waiting\<rparr>"
    if "caller s = Entered \<and> workersActive s"
    using that by (simp add: RestartWorkers_simple_def emit_def)
  show "RestartWorkers_simple s = s" if "caller s = Waiting \<and> 0 < workerWg s"
    using that by (simp add: RestartWorkers_simple_def)
next
  assume a: "workersActive s \<and> 0 < workerWg s \<and> panicked s = None"
  then have b: "workersActive s" "0 < workerWg s" "panicked s = None" by simp_all
  note r = run_simple_blocked [OF b, of env acts]
  show "workers (run_simple env acts s) = workers s" using r by simp
  show "clients (run_simple env acts s) = clients s" using r by simp
  show "workerWg (run_simple env acts s) = workerWg s" using r by simp
  show "caller (run_simple env acts s) \<noteq> Idle" if "caller s \<noteq> Idle"
    using r that by simp
qed

text \<open>Two workers are running, the configuration changes, the watcher calls
  \<^verbatim>\<open>RestartWorkers\<close>: it is still inside the call after any number of steps.\<close>

theorem simple_restart_blocks_forever_witness:
  "caller (run_simple example_env
      [Restart, Poll (source 20 ''{1,http://a}''), Restart, Work 0, Restart, Work 1, Restart]
      (main_start example_env (source 10 ''{2,http://a}''))) \<noteq> Idle \<and>
   workers (run_simple example_env
      [Restart, Poll (source 20 ''{1,http://a}''), Restart, Work 0, Restart, Work 1, Restart]
      (main_start example_env (source 10 ''{2,http://a}''))) = [(0, AtLoop), (0, AtLoop)] \<and>
   clients (run_simple example_env
      [Restart, Poll (source 20 ''{1,http://a}''), Restart, Work 0, Restart, Work 1, Restart]
      (main_start example_env (source 10 ''{2,http://a}''))) = 1"
proof -
  define s where "s = run_simple example_env [Restart, Poll (source 20 ''{1,http://a}'')]
       (main_start example_env (source 10 ''{2,http://a}''))"
  have split: "run_simple example_env
      [Restart, Poll (source 20 ''{1,http://a}''), Restart, Work 0, Restart, Work 1, Restart]
      (main_start example_env (source 10 ''{2,http://a}'')) =
      run_simple example_env [Restart, Work 0, Restart, Work 1, Restart] s"
    unfolding s_def by simp
  have pre: "workersActive s \<and> 0 < workerWg s \<and> panicked s = None"
    unfolding s_def simple_second_call by (simp add: loaded_sys_fields)
  have f: "caller s \<noteq> Idle" "workers s = [(0, AtLoop), (0, AtLoop)]" "clients s = 1"
    unfolding s_def simple_second_call by simp_all
  show ?thesis
    unfolding split
    using simple_restart_blocks_forever
            [of example_env "[Restart, Work 0, Restart, Work 1, Restart]" s] pre f
    by simp
qed

text \<open>The claim as stated fails when the active generation has no worker. The initial
  load fails, so \<^verbatim>\<open>main\<close> starts a generation of zero workers and sets \<open>workersActive\<close>.
  When a configuration with concurrency 2 appears, \<^verbatim>\<open>RestartWorkers\<close> waits on a counter
  that is zero, returns from the wait at once and spawns the two workers.\<close>

theorem simple_restart_after_empty_generation:
  "workersActive (run_simple example_env [Restart] (main_start example_env missing_source)) \<and>
   workers (run_simple example_env [Restart] (main_start example_env missing_source)) = [] \<and>
   caller (run_simple example_env [Restart, Poll (source 10 ''{2,http://a}''), Restart]
      (main_start example_env missing_source)) = Waiting \<and>
   caller (run_simple example_env
      [Restart, Poll (source 10 ''{2,http://a}''), Restart, Restart]
      (main_start example_env missing_source)) = Idle \<and>
   workers (run_simple example_env
      [Restart, Poll (source 10 ''{2,http://a}''), Restart, Restart]
      (main_start example_env missing_source)) = [(1, AtLoop), (1, AtLoop)]"
  by (simp add: main_start_def LoadConfig_def missing_source_def source_def example_env_def
        example_decode_def init_def emit_def Let_def zero_Config_def step_simple_def
        RestartWorkers_simple_def start_simple_eq MonitorConfig_tick_def numeral_2_eq_2)

text \<open>
  \<^bold>\<open>Claim C1\<close> on \<^verbatim>\<open>main.go\<close>. With two workers running, the watcher loads a configuration
  with concurrency 1 and calls \<^verbatim>\<open>RestartWorkers\<close>. Whatever is scheduled from then on, the
  call has not returned, the only workers are the two old ones, bound to the first
  client, and no second client exists: the old generation is never told to stop and the
  new one is never spawned.
\<close>

theorem simple_restart_never_returns:
  "caller (run_simple example_env ([Restart, Poll (source 20 ''{1,http://a}'')] @ acts)
      (main_start example_env (source 10 ''{2,http://a}''))) \<noteq> Idle \<and>
   workers (run_simple example_env ([Restart, Poll (source 20 ''{1,http://a}'')] @ acts)
      (main_start example_env (source 10 ''{2,http://a}''))) = [(0, AtLoop), (0, AtLoop)] \<and>
   clients (run_simple example_env ([Restart, Poll (source 20 ''{1,http://a}'')] @ acts)
      (main_start example_env (source 10 ''{2,http://a}''))) = 1 \<and>
   Concurrency (config (run_simple example_env [Restart, Poll (source 20 ''{1,http://a}'')]
      (main_start example_env (source 10 ''{2,http://a}'')))) = 1"
proof -
  define s where "s = run_simple example_env [Restart, Poll (source 20 ''{1,http://a}'')]
       (main_start example_env (source 10 ''{2,http://a}''))"
  have pre: "workersActive s" "0 < workerWg s" "panicked s = None"
    unfolding s_def simple_second_call by (simp_all add: loaded_sys_fields)
  have f: "caller s \<noteq> Idle" "workers s = [(0, AtLoop), (0, AtLoop)]" "clients s = 1"
    unfolding s_def simple_second_call by simp_all
  have c: "Concurrency (config (run_simple example_env
      [Restart, Poll (source 20 ''{1,http://a}'')]
      (main_start example_env (source 10 ''{2,http://a}'')))) = 1"
    unfolding simple_second_call by simp
  have r: "run_simple example_env ([Restart, Poll (source 20 ''{1,http://a}'')] @ acts)
      (main_start example_env (source 10 ''{2,http://a}'')) = run_simple example_env acts s"
    unfolding s_def by (rule run_simple_append)
  have "caller (run_simple example_env acts s) \<noteq> Idle \<and>
      workers (run_simple example_env acts s) = [(0, AtLoop), (0, AtLoop)] \<and>
      clients (run_simple example_env acts s) = 1"
    using run_simple_blocked [OF pre, of example_env acts] f by simp
  then show ?thesis
    unfolding r using c by blast
qed


subsection \<open>Configurations that are not validated\<close>

lemma start_rl_negative:
  "Concurrency (config s) < 0 \<Longrightarrow>
   start_rl s =
     s\<lparr>workerWg := 0, workersActive := True, panicked := Some MakechanSizeOutOfRange,
       trace := trace s @ [Log (StartingNewWorkers (Concurrency (config s)))],
       clients := clients s + 1\<rparr>"
  by (simp add: start_rl_def Let_def emit_def panic_def)

lemma start_rl_eq:
  "0 \<le> Concurrency (config s) \<Longrightarrow>
   start_rl s =
     s\<lparr>workerWg := nat (Concurrency (config s)),
       workersActive := True,
       jobQueue := Some (length (chans s)),
       trace := trace s @ [Log (StartingNewWorkers (Concurrency (config s)))],
       clients := clients s + 1,
       chans := chans s @
         [\<lparr>queued = 0, capacity = nat (Concurrency (config s)), closed = False\<rparr>],
       workers := workers s @ replicate (nat (Concurrency (config s))) (clients s, AtRange),
       producers := producers s @ [AtSend]\<rparr>"
  by (simp add: start_rl_def Let_def emit_def spawn_loop_from_zero)

text \<open>
  \<^bold>\<open>Claim C9.\<close> \<^verbatim>\<open>LoadConfig\<close> installs whatever the decoder returns: no condition on the
  decoded value stands between the decoder's success and the assignment. When the
  stored concurrency is zero or negative, the spawn loop does not run: in both files the
  lines after the join leave the workers as they were and the WaitGroup counter at
  zero, and set \<open>workersActive\<close>. (In the rate-limited file a negative concurrency also
  makes \<^verbatim>\<open>make(chan struct{}, n)\<close> panic, after the flag is set and before the loop.)
  On its first call \<^verbatim>\<open>RestartWorkers\<close> goes straight to these lines.
\<close>

theorem unvalidated_config_spawns_no_workers:
  "(stat_result src = Inr mt \<and> mt \<noteq> lastModTime s \<and> open_result src = Inr bytes \<and>
    decode bytes = Inr c \<longrightarrow>
      fst (LoadConfig decode src s) \<and> config (snd (LoadConfig decode src s)) = c) \<and>
   (Concurrency (config s) \<le> 0 \<longrightarrow>
      spawn_loop entry client 0 s = s \<and>
      workers (start_simple s) = workers s \<and>
      workerWg (start_simple s) = 0 \<and>
      workersActive (start_simple s) \<and>
      workers (start_rl s) = workers s \<and>
      workerWg (start_rl s) = 0 \<and>
      workersActive (start_rl s) \<and>
      panicked (start_rl s) =
        (if Concurrency (config s) < 0 then Some MakechanSizeOutOfRange else panicked s)) \<and>
   (caller s = Entered \<and> \<not> workersActive s \<longrightarrow>
      RestartWorkers_simple s = (start_simple s)\<lparr>caller := Idle\<rparr> \<and>
      RestartWorkers_rl s = returned (start_rl s))"
proof (intro conjI impI)
  assume "stat_result src = Inr mt \<and> mt \<noteq> lastModTime s \<and> open_result src = Inr bytes \<and>
    decode bytes = Inr c"
  then have l: "LoadConfig decode src s =
     (True, s\<lparr>config := c, lastModTime := mt,
              trace := trace s @ [ConfigLock, WriteConfig c, ConfigUnlock, Log (ConfigUpdated c)]\<rparr>)"
    by (simp add: LoadConfig_def emit_def Let_def)
  show "fst (LoadConfig decode src s)" by (simp add: l)
  show "config (snd (LoadConfig decode src s)) = c" by (simp add: l)
next
  assume n: "Concurrency (config s) \<le> 0"
  show "spawn_loop entry client 0 s = s"
    using n by (simp add: spawn_loop_exit)
  show "workers (start_simple s) = workers s" "workerWg (start_simple s) = 0"
    "workersActive (start_simple s)"
    using n by (simp_all add: start_simple_eq)
  have rl: "workers (start_rl s) = workers s \<and> workerWg (start_rl s) = 0 \<and>
      workersActive (start_rl s) \<and>
      panicked (start_rl s) =
        (if Concurrency (config s) < 0 then Some MakechanSizeOutOfRange else panicked s)"
  proof (cases "Concurrency (config s) < 0")
    case True
    then show ?thesis by (simp add: start_rl_negative)
  next
    case False
    with n have "Concurrency (config s) = 0" by simp
    then show ?thesis by (simp add: start_rl_eq)
  qed
  show "workers (start_rl s) = workers s" using rl by simp
  show "workerWg (start_rl s) = 0" using rl by simp
  show "workersActive (start_rl s)" using rl by simp
  show "panicked (start_rl s) =
        (if Concurrency (config s) < 0 then Some MakechanSizeOutOfRange else panicked s)"
    using rl by simp
next
  assume "caller s = Entered \<and> \<not> workersActive s"
  then show "RestartWorkers_simple s = (start_simple s)\<lparr>caller := Idle\<rparr>"
    and "RestartWorkers_rl s = returned (start_rl s)"
    by (simp_all add: RestartWorkers_simple_def RestartWorkers_rl_def)
qed

lemma main_start_missing:
  "main_start example_env missing_source =
     init\<lparr>trace := [Log (FailedToOpenConfig ''no such file or directory'')],
           caller := Entered\<rparr>"
  by (simp add: main_start_def LoadConfig_def missing_source_def emit_def init_def)

text \<open>A file that decodes to concurrency \<open>-3\<close> is installed; after a failed initial
  load the configuration is the zero value, and the first restart spawns nothing and
  sets the flag.\<close>

theorem unvalidated_config_spawns_no_workers_witness:
  "config (snd (LoadConfig example_decode (source 30 ''{-3,}'') loaded)) =
     \<lparr>TargetURL = [], Concurrency = - 3\<rparr> \<and>
   config (main_start example_env missing_source) = zero_Config \<and>
   workers (RestartWorkers_simple (main_start example_env missing_source)) = [] \<and>
   workersActive (RestartWorkers_simple (main_start example_env missing_source)) \<and>
   workers (RestartWorkers_rl (main_start example_env missing_source)) = [] \<and>
   workersActive (RestartWorkers_rl (main_start example_env missing_source))"
proof -
  have parses: "stat_result (source 30 ''{-3,}'') = Inr 30 \<and> 30 \<noteq> lastModTime loaded \<and>
      open_result (source 30 ''{-3,}'') = Inr ''{-3,}'' \<and>
      example_decode ''{-3,}'' = Inr \<lparr>TargetURL = [], Concurrency = - 3\<rparr>"
    by (simp add: source_def loaded_sys_fields example_decode_def)
  have zero: "config (main_start example_env missing_source) = zero_Config"
    by (simp add: main_start_missing init_def)
  have n: "Concurrency (config (main_start example_env missing_source)) \<le> 0"
    by (simp add: zero zero_Config_def)
  have first: "caller (main_start example_env missing_source) = Entered \<and>
      \<not> workersActive (main_start example_env missing_source)"
    by (simp add: main_start_fields)
  note a = unvalidated_config_spawns_no_workers
      [of "source 30 ''{-3,}''" 30 loaded "''{-3,}''" example_decode
          "\<lparr>TargetURL = [], Concurrency = - 3\<rparr>"]
  note b = unvalidated_config_spawns_no_workers
      [of src mt "main_start example_env missing_source"]
  have "config (snd (LoadConfig example_decode (source 30 ''{-3,}'') loaded)) =
     \<lparr>TargetURL = [], Concurrency = - 3\<rparr>"
    using a parses by blast
  moreover have "workers (start_simple (main_start example_env missing_source)) = [] \<and>
      workersActive (start_simple (main_start example_env missing_source)) \<and>
      workers (start_rl (main_start example_env missing_source)) = [] \<and>
      workersActive (start_rl (main_start example_env missing_source)) \<and>
      panicked (start_rl (main_start example_env missing_source)) = None"
    using b n by (simp add: main_start_fields zero zero_Config_def)
  moreover have "RestartWorkers_simple (main_start example_env missing_source) =
        (start_simple (main_start example_env missing_source))\<lparr>caller := Idle\<rparr> \<and>
      RestartWorkers_rl (main_start example_env missing_source) =
        returned (start_rl (main_start example_env missing_source))"
    using b first by blast
  ultimately show ?thesis
    using zero by (simp add: returned_def)
qed

subsection \<open>The rate-limited pool: frames\<close>

lemma retry_loop_frame:
  "\<exists>r d n t. retry_loop env client req i s =
     s\<lparr>reqCounter := r, trace := t, doCalls := d, randCalls := n\<rparr>"
proof (induction "nat (maxRetries - i)" arbitrary: i s)
  case 0
  then have "\<not> i < maxRetries" by simp
  then have "retry_loop env client req i s =
      s\<lparr>reqCounter := reqCounter s, trace := trace s, doCalls := doCalls s,
        randCalls := randCalls s\<rparr>"
    by (simp add: retry_loop_done)
  then show ?case by blast
next
  case (Suc m)
  then have lt: "i < maxRetries" by simp
  show ?case
  proof (cases "transport env (doCalls s)")
    case (Inr resp)
    have "retry_loop env client req i s =
        s\<lparr>reqCounter := reqCounter s + 1,
          trace := trace s @ [HttpDo client req, BodyClose resp],
          doCalls := doCalls s + 1, randCalls := randCalls s\<rparr>"
      using retry_loop_success [OF lt Inr, of client req] by simp
    then show ?thesis by blast
  next
    case (Inl e)
    define s1 where "s1 =
       s\<lparr>doCalls := doCalls s + 1, randCalls := randCalls s + 1,
         trace := trace s @
           [HttpDo client req, Log (RequestFailedAttempt (i + 1) e),
            Sleep (int (draw env (randCalls s) mod 100) * Millisecond)]\<rparr>"
    have m: "m = nat (maxRetries - (i + 1))"
      using Suc.hyps(2) by simp
    from Suc.hyps(1) [OF m, of s1]
    obtain r d n t where
      "retry_loop env client req (i + 1) s1 =
         s1\<lparr>reqCounter := r, trace := t, doCalls := d, randCalls := n\<rparr>"
      by blast
    then have "retry_loop env client req i s =
        s\<lparr>reqCounter := r, trace := t, doCalls := d, randCalls := n\<rparr>"
      using retry_loop_failure [OF lt Inl, of client req]
      by (simp add: s1_def)
    then show ?thesis by blast
  qed
qed

lemma worker_rl_body_frame:
  "fst (worker_rl_body env client s) \<noteq> Return \<and>
   (\<exists>r d n t. snd (worker_rl_body env client s) =
      s\<lparr>reqCounter := r, trace := t, doCalls := d, randCalls := n\<rparr>)"
proof (cases "newRequest env (TargetURL (config s))")
  case (Inl e)
  have "worker_rl_body env client s =
      (Continue,
       s\<lparr>reqCounter := reqCounter s,
         trace := trace s @ [ConfigRLock, ConfigRUnlock, Log (RequestCreationFailed e)],
         doCalls := doCalls s, randCalls := randCalls s\<rparr>)"
    using Inl by (simp add: worker_rl_body_def emit_def Let_def)
  then show ?thesis by (metis Flow.distinct(5) fst_conv snd_conv)
next
  case (Inr req)
  define s2 where "s2 = s\<lparr>trace := trace s @ [ConfigRLock, ConfigRUnlock]\<rparr>"
  from retry_loop_frame [of env client req 0 s2]
  obtain r d n t where
    l: "retry_loop env client req 0 s2 =
          s2\<lparr>reqCounter := r, trace := t, doCalls := d, randCalls := n\<rparr>"
    by blast
  have "worker_rl_body env client s =
      (Next,
       s\<lparr>reqCounter := r,
         trace := t @ [Sleep (int (draw env n mod 10) * Millisecond)],
         doCalls := d, randCalls := n + 1\<rparr>)"
    using Inr l by (simp add: worker_rl_body_def emit_def Intn_def Let_def s2_def)
  then show ?thesis by (metis Flow.distinct(3) fst_conv snd_conv)
qed

subsection \<open>The rate-limited pool: the producer across a restart\<close>

lemma worker_rl_frame:
  "producers (worker_rl env k s) = producers s \<and> clients (worker_rl env k s) = clients s \<and>
   workersActive (worker_rl env k s) = workersActive s"
proof (cases "k < length (workers s)")
  case False
  then show ?thesis by (simp add: worker_rl_def)
next
  case True
  obtain client pc where w: "workers s ! k = (client, pc)"
    by (cases "workers s ! k")
  show ?thesis
  proof (cases pc)
    case (Receiving q)
    show ?thesis
    proof (cases q)
      case None
      then show ?thesis using True w Receiving by (simp add: worker_rl_def)
    next
      case (Some c)
      show ?thesis
      proof (cases "c < length (chans s) \<and> 0 < queued (chans s ! c)")
        case False
        then show ?thesis
          using True w Receiving Some
          by (auto simp: worker_rl_def worker_exit_def WaitGroup_Done_def panic_def Let_def)
      next
        case yes: True
        define s0 where "s0 =
           s\<lparr>chans := (chans s)[c := (chans s ! c)\<lparr>queued := queued (chans s ! c) - 1\<rparr>]\<rparr>"
        obtain fl s1 where b: "worker_rl_body env client s0 = (fl, s1)"
          by (cases "worker_rl_body env client s0")
        from worker_rl_body_frame [of env client s0] b
        obtain r d n t where nr: "fl \<noteq> Return"
          and fr: "s1 = s0\<lparr>reqCounter := r, trace := t, doCalls := d, randCalls := n\<rparr>"
          by auto
        have "worker_rl env k s = s1"
          using True w Receiving Some yes b nr
          by (cases fl) (simp_all add: worker_rl_def Let_def s0_def)
        then show ?thesis by (simp add: fr s0_def)
      qed
    qed
  qed (use True w in \<open>simp_all add: worker_rl_def\<close>)
qed

lemma producer_frame:
  "length (producers (producer k s)) = length (producers s) \<and>
   clients (producer k s) = clients s"
  by (auto simp: producer_def Let_def panic_def split: ProducerPc.splits option.splits)

lemma close_chan_frame:
  "producers (close_chan q s) = producers s \<and> clients (close_chan q s) = clients s"
  by (auto simp: close_chan_def panic_def split: option.splits)

lemma RestartWorkers_rl_producers:
  assumes "length (producers s) = clients s"
  shows "panicked (RestartWorkers_rl s) = None \<longrightarrow>
         length (producers (RestartWorkers_rl s)) = clients (RestartWorkers_rl s)"
proof -
  have started: "panicked (returned (start_rl s)) = None \<longrightarrow>
      length (producers (returned (start_rl s))) = clients (returned (start_rl s))"
  proof (cases "Concurrency (config s) < 0")
    case True
    then show ?thesis by (simp add: returned_def start_rl_negative)
  next
    case False
    then show ?thesis using assms by (simp add: returned_def start_rl_eq)
  qed
  show ?thesis
  proof (cases "caller s")
    case Idle
    then show ?thesis using assms by (simp add: RestartWorkers_rl_def)
  next
    case Entered
    show ?thesis
    proof (cases "workersActive s")
      case True
      then show ?thesis
        using Entered assms close_chan_frame [of "jobQueue s" "emit (Log StoppingWorkers) s"]
        by (simp add: RestartWorkers_rl_def Let_def emit_def)
    next
      case False
      then show ?thesis using Entered started by (simp add: RestartWorkers_rl_def)
    qed
  next
    case Waiting
    then show ?thesis using assms started by (simp add: RestartWorkers_rl_def)
  qed
qed

lemma step_rl_producers:
  assumes "panicked s = None \<longrightarrow> length (producers s) = clients s"
  shows "panicked (step_rl env a s) = None \<longrightarrow>
         length (producers (step_rl env a s)) = clients (step_rl env a s)"
proof (cases "panicked s")
  case (Some p)
  then show ?thesis by (simp add: step_rl_def)
next
  case None
  then have True: "panicked s = None" .
  with assms have inv: "length (producers s) = clients s" by simp
  show ?thesis
  proof (cases a)
    case (Poll src)
    from MonitorConfig_tick_frame [of env src s]
    obtain c m t p where
      "MonitorConfig_tick env src s =
         s\<lparr>config := c, lastModTime := m, trace := t, caller := p\<rparr>"
      by blast
    then show ?thesis using True inv Poll by (simp add: step_rl_def)
  next
    case Restart
    then show ?thesis
      using True RestartWorkers_rl_producers [OF inv] by (simp add: step_rl_def)
  next
    case (Work k)
    then show ?thesis
      using True inv worker_rl_frame [of env k s] by (simp add: step_rl_def)
  next
    case (Produce k)
    then show ?thesis
      using True inv producer_frame [of k s] by (simp add: step_rl_def)
  qed
qed

lemma run_rl_producers:
  "(panicked s = None \<longrightarrow> length (producers s) = clients s) \<Longrightarrow>
   panicked (run_rl env acts s) = None \<longrightarrow>
   length (producers (run_rl env acts s)) = clients (run_rl env acts s)"
proof (induction acts arbitrary: s)
  case Nil
  then show ?case by simp
next
  case (Cons a acts)
  from Cons.IH [OF step_rl_producers [OF Cons.prems, of env a]] show ?case by simp
qed

lemma main_start_rl_fields:
  "producers (main_start env src) = []" "chans (main_start env src) = []"
  "jobQueue (main_start env src) = None"
proof -
  from LoadConfig_frame [of "json_decode env" src init]
  obtain c m t where "snd (LoadConfig (json_decode env) src init) =
      init\<lparr>config := c, lastModTime := m, trace := t\<rparr>"
    by blast
  then show "producers (main_start env src) = []" "chans (main_start env src) = []"
    "jobQueue (main_start env src) = None"
    by (simp_all add: main_start_def init_def)
qed

text \<open>
  \<^bold>\<open>Claim C2\<close> on the rate-limited file. Every call of the lines after the join builds one
  client and starts one producer, and no step of any goroutine ends a producer. So in
  every state the process reaches from \<^verbatim>\<open>main\<close> without having panicked, as many
  producers are running as generations were started: the producers of all the earlier
  generations are still there when a new one is spawned.
\<close>

theorem producer_is_never_stopped:
  "panicked (run_rl env acts (main_start env src)) = None \<longrightarrow>
   length (producers (run_rl env acts (main_start env src))) =
     clients (run_rl env acts (main_start env src))"
  by (rule run_rl_producers) (simp add: main_start_fields main_start_rl_fields)

text \<open>Along \<open>survivor_schedule\<close> the restart completes and spawns the second producer
  while the first is still running; the first then reads the global \<^verbatim>\<open>jobQueue\<close>, by now
  the new channel, and sends into it (one element is queued before the second producer
  has taken a step), and both go on feeding the new queue. Along \<open>panic_schedule\<close> the
  first producer is inside its send when the queue is closed: the send panics, the
  process ends with the caller still waiting, and the new generation is never spawned.\<close>

theorem producer_is_never_stopped_witness:
  "panicked (run_rl example_env survivor_schedule
      (main_start example_env (source 10 ''{1,http://a}''))) = None \<and>
   clients (run_rl example_env survivor_schedule
      (main_start example_env (source 10 ''{1,http://a}''))) = 2 \<and>
   length (producers (run_rl example_env survivor_schedule
      (main_start example_env (source 10 ''{1,http://a}'')))) = 2 \<and>
   producers (run_rl example_env survivor_schedule
      (main_start example_env (source 10 ''{1,http://a}''))) = [AtSend, AtSend] \<and>
   caller (run_rl example_env survivor_schedule
      (main_start example_env (source 10 ''{1,http://a}''))) = Idle \<and>
   workers (run_rl example_env survivor_schedule
      (main_start example_env (source 10 ''{1,http://a}''))) =
     [(0, Returned), (1, AtRange), (1, AtRange)] \<and>
   chans (run_rl example_env (take 11 survivor_schedule)
      (main_start example_env (source 10 ''{1,http://a}''))) =
     [\<lparr>queued = 0, capacity = 1, closed = True\<rparr>,
      \<lparr>queued = 1, capacity = 2, closed = False\<rparr>] \<and>
   chans (run_rl example_env survivor_schedule
      (main_start example_env (source 10 ''{1,http://a}''))) =
     [\<lparr>queued = 0, capacity = 1, closed = True\<rparr>,
      \<lparr>queued = 2, capacity = 2, closed = False\<rparr>] \<and>
   panicked (run_rl example_env panic_schedule
      (main_start example_env (source 10 ''{1,http://a}''))) = Some SendOnClosedChannel \<and>
   caller (run_rl example_env panic_schedule
      (main_start example_env (source 10 ''{1,http://a}''))) = Waiting \<and>
   workers (run_rl example_env panic_schedule
      (main_start example_env (source 10 ''{1,http://a}''))) = [(0, Receiving (Some 0))]"
proof -
  have alive: "panicked (run_rl example_env survivor_schedule
      (main_start example_env (source 10 ''{1,http://a}''))) = None"
    by code_simp
  have two: "clients (run_rl example_env survivor_schedule
      (main_start example_env (source 10 ''{1,http://a}''))) = 2"
    by code_simp
  have len: "length (producers (run_rl example_env survivor_schedule
      (main_start example_env (source 10 ''{1,http://a}'')))) = 2"
    using producer_is_never_stopped
            [of example_env survivor_schedule "source 10 ''{1,http://a}''"] alive two
    by simp
  have rest: "producers (run_rl example_env survivor_schedule
      (main_start example_env (source 10 ''{1,http://a}''))) = [AtSend, AtSend] \<and>
   caller (run_rl example_env survivor_schedule
      (main_start example_env (source 10 ''{1,http://a}''))) = Idle \<and>
   workers (run_rl example_env survivor_schedule
      (main_start example_env (source 10 ''{1,http://a}''))) =
     [(0, Returned), (1, AtRange), (1, AtRange)] \<and>
   chans (run_rl example_env (take 11 survivor_schedule)
      (main_start example_env (source 10 ''{1,http://a}''))) =
     [\<lparr>queued = 0, capacity = 1, closed = True\<rparr>,
      \<lparr>queued = 1, capacity = 2, closed = False\<rparr>] \<and>
   chans (run_rl example_env survivor_schedule
      (main_start example_env (source 10 ''{1,http://a}''))) =
     [\<lparr>queued = 0, capacity = 1, closed = True\<rparr>,
      \<lparr>queued = 2, capacity = 2, closed = False\<rparr>] \<and>
   panicked (run_rl example_env panic_schedule
      (main_start example_env (source 10 ''{1,http://a}''))) = Some SendOnClosedChannel \<and>
   caller (run_rl example_env panic_schedule
      (main_start example_env (source 10 ''{1,http://a}''))) = Waiting \<and>
   workers (run_rl example_env panic_schedule
      (main_start example_env (source 10 ''{1,http://a}''))) = [(0, Receiving (Some 0))]"
    by code_simp
  show ?thesis
    using alive two len rest by blast
qed

subsection \<open>The rate-limited pool: the join\<close>

lemma filter_update_same:
  "k < length ws \<Longrightarrow> P (ws ! k) \<Longrightarrow> P x \<Longrightarrow>
   length (filter P (ws[k := x])) = length (filter P ws)"
proof (induction ws arbitrary: k)
  case Nil
  then show ?case by simp
next
  case (Cons w ws)
  then show ?case by (cases k) simp_all
qed

lemma filter_update_drop:
  "k < length ws \<Longrightarrow> P (ws ! k) \<Longrightarrow> \<not> P x \<Longrightarrow>
   length (filter P ws) = Suc (length (filter P (ws[k := x])))"
proof (induction ws arbitrary: k)
  case Nil
  then show ?case by simp
next
  case (Cons w ws)
  then show ?case by (cases k) simp_all
qed

lemma worker_rl_join:
  assumes "workerWg s = live s"
  shows "panicked (worker_rl env k s) = None \<longrightarrow>
         workerWg (worker_rl env k s) = live (worker_rl env k s)"
proof (cases "k < length (workers s)")
  case False
  then show ?thesis using assms by (simp add: worker_rl_def)
next
  case True
  obtain client pc where w: "workers s ! k = (client, pc)"
    by (cases "workers s ! k")
  have exit: "panicked (worker_exit k client s) = None \<longrightarrow>
      workerWg (worker_exit k client s) = live (worker_exit k client s)"
    if "pc \<noteq> Returned"
  proof (cases "workerWg s = 0")
    case True
    then show ?thesis by (simp add: worker_exit_def WaitGroup_Done_def panic_def)
  next
    case False
    have eq: "length (filter (\<lambda>w. snd w \<noteq> Returned) (workers s)) =
        Suc (length (filter (\<lambda>w. snd w \<noteq> Returned) ((workers s)[k := (client, Returned)])))"
      using \<open>k < length (workers s)\<close> w that by (intro filter_update_drop) simp_all
    have "workerWg s - 1 =
        length (filter (\<lambda>w. snd w \<noteq> Returned) ((workers s)[k := (client, Returned)]))"
      using assms eq by (simp add: live_def)
    then show ?thesis
      using False by (simp add: worker_exit_def WaitGroup_Done_def live_def)
  qed
  show ?thesis
  proof (cases pc)
    case AtLoop
    then show ?thesis using True w assms by (simp add: worker_rl_def)
  next
    case AtRange
    have "length (filter (\<lambda>w. snd w \<noteq> Returned)
            ((workers s)[k := (client, Receiving (jobQueue s))])) =
          length (filter (\<lambda>w. snd w \<noteq> Returned) (workers s))"
      using True w AtRange by (intro filter_update_same) simp_all
    then show ?thesis using True w AtRange assms by (simp add: worker_rl_def live_def)
  next
    case Returned
    then show ?thesis using True w assms by (simp add: worker_rl_def)
  next
    case (Receiving q)
    show ?thesis
    proof (cases q)
      case None
      then show ?thesis using True w Receiving assms by (simp add: worker_rl_def)
    next
      case (Some c)
      show ?thesis
      proof (cases "c < length (chans s)")
        case False
        then show ?thesis using True w Receiving Some assms by (simp add: worker_rl_def)
      next
        case inrange: True
        show ?thesis
        proof (cases "0 < queued (chans s ! c)")
          case False
          show ?thesis
          proof (cases "closed (chans s ! c)")
            case True
            have "worker_rl env k s = worker_exit k client s"
              using \<open>k < length (workers s)\<close> w Receiving Some inrange False True
              by (simp add: worker_rl_def Let_def)
            then show ?thesis using exit Receiving by simp
          next
            case notclosed: False
            then show ?thesis
              using True w Receiving Some inrange False assms
              by (simp add: worker_rl_def Let_def)
          qed
        next
          case yes: True
          define s0 where "s0 =
             s\<lparr>chans := (chans s)[c := (chans s ! c)\<lparr>queued := queued (chans s ! c) - 1\<rparr>]\<rparr>"
          obtain fl s1 where b: "worker_rl_body env client s0 = (fl, s1)"
            by (cases "worker_rl_body env client s0")
          from worker_rl_body_frame [of env client s0] b
          obtain r d n t where nr: "fl \<noteq> Return"
            and fr: "s1 = s0\<lparr>reqCounter := r, trace := t, doCalls := d, randCalls := n\<rparr>"
            by auto
          have "worker_rl env k s = s1"
            using True w Receiving Some inrange yes b nr
            by (cases fl) (simp_all add: worker_rl_def Let_def s0_def)
          then show ?thesis using assms by (simp add: fr s0_def live_def)
        qed
      qed
    qed
  qed
qed

lemma worker_rl_workers_empty:
  "workers s = [] \<Longrightarrow> workers (worker_rl env k s) = []"
  by (simp add: worker_rl_def)

lemma producer_join:
  "workerWg (producer k s) = workerWg s \<and> workers (producer k s) = workers s \<and>
   workersActive (producer k s) = workersActive s"
  by (auto simp: producer_def Let_def panic_def split: ProducerPc.splits option.splits)

lemma close_chan_join:
  "workerWg (close_chan q s) = workerWg s \<and> workers (close_chan q s) = workers s \<and>
   workersActive (close_chan q s) = workersActive s"
  by (auto simp: close_chan_def panic_def split: option.splits)

lemma live_start_rl:
  "live s = 0 \<Longrightarrow> panicked (returned (start_rl s)) = None \<longrightarrow>
     workerWg (returned (start_rl s)) = live (returned (start_rl s)) \<and>
     workersActive (returned (start_rl s))"
proof (cases "Concurrency (config s) < 0")
  case True
  then show ?thesis by (simp add: returned_def start_rl_negative)
next
  case False
  assume "live s = 0"
  then show ?thesis
    using False by (simp add: returned_def start_rl_eq live_def)
qed

lemma RestartWorkers_rl_join:
  assumes "workerWg s = live s" and "\<not> workersActive s \<longrightarrow> workers s = []"
  shows "panicked (RestartWorkers_rl s) = None \<longrightarrow>
         workerWg (RestartWorkers_rl s) = live (RestartWorkers_rl s) \<and>
         (\<not> workersActive (RestartWorkers_rl s) \<longrightarrow> workers (RestartWorkers_rl s) = [])"
proof (cases "caller s")
  case Idle
  then show ?thesis using assms by (simp add: RestartWorkers_rl_def)
next
  case Entered
  show ?thesis
  proof (cases "workersActive s")
    case True
    then show ?thesis
      using Entered assms close_chan_join [of "jobQueue s" "emit (Log StoppingWorkers) s"]
      by (simp add: RestartWorkers_rl_def Let_def emit_def live_def)
  next
    case False
    with assms have "live s = 0" by (simp add: live_def)
    from live_start_rl [OF this] show ?thesis
      using Entered False by (simp add: RestartWorkers_rl_def)
  qed
next
  case Waiting
  show ?thesis
  proof (cases "workerWg s = 0")
    case True
    with assms have "live s = 0" by simp
    from live_start_rl [OF this] show ?thesis
      using Waiting True by (simp add: RestartWorkers_rl_def)
  next
    case False
    then show ?thesis using Waiting assms by (simp add: RestartWorkers_rl_def)
  qed
qed

lemma step_rl_join:
  assumes "panicked s = None \<longrightarrow>
           workerWg s = live s \<and> (\<not> workersActive s \<longrightarrow> workers s = [])"
  shows "panicked (step_rl env a s) = None \<longrightarrow>
         workerWg (step_rl env a s) = live (step_rl env a s) \<and>
         (\<not> workersActive (step_rl env a s) \<longrightarrow> workers (step_rl env a s) = [])"
proof (cases "panicked s")
  case (Some p)
  then show ?thesis by (simp add: step_rl_def)
next
  case None
  with assms have inv: "workerWg s = live s" "\<not> workersActive s \<longrightarrow> workers s = []"
    by simp_all
  show ?thesis
  proof (cases a)
    case (Poll src)
    from MonitorConfig_tick_frame [of env src s]
    obtain c m t p where
      "MonitorConfig_tick env src s =
         s\<lparr>config := c, lastModTime := m, trace := t, caller := p\<rparr>"
      by blast
    then show ?thesis using None inv Poll by (simp add: step_rl_def live_def)
  next
    case Restart
    then show ?thesis
      using None RestartWorkers_rl_join [OF inv] by (simp add: step_rl_def)
  next
    case (Work k)
    then show ?thesis
      using None inv worker_rl_join [OF inv(1), of env k] worker_rl_frame [of env k s]
        worker_rl_workers_empty [of s env k]
      by (simp add: step_rl_def)
  next
    case (Produce k)
    then show ?thesis
      using None inv producer_join [of k s] by (simp add: step_rl_def live_def)
  qed
qed

lemma run_rl_join:
  "(panicked s = None \<longrightarrow>
      workerWg s = live s \<and> (\<not> workersActive s \<longrightarrow> workers s = [])) \<Longrightarrow>
   panicked (run_rl env acts s) = None \<longrightarrow>
   workerWg (run_rl env acts s) = live (run_rl env acts s)"
proof (induction acts arbitrary: s)
  case Nil
  then show ?case by simp
next
  case (Cons a acts)
  from Cons.IH [OF step_rl_join [OF Cons.prems, of env a]] show ?case by simp
qed

text \<open>In the rate-limited file the join is effective: while the process has not
  panicked, the WaitGroup counter is the number of workers that have not returned. So
  when \<^verbatim>\<open>Wait\<close> returns, every worker of the outgoing generation has returned, and the
  restart then leaves exactly as many live workers as the configured concurrency.\<close>

lemma rate_limited_join_counts_live_workers:
  "panicked (run_rl env acts (main_start env src)) = None \<longrightarrow>
   workerWg (run_rl env acts (main_start env src)) =
     live (run_rl env acts (main_start env src))"
  by (rule run_rl_join) (simp add: main_start_fields live_def)

lemma rate_limited_restart_spawns_concurrency:
  assumes "caller s = Waiting" and "workerWg s = 0" and "workerWg s = live s"
    and "0 \<le> Concurrency (config s)" and "panicked s = None"
  shows "live (RestartWorkers_rl s) = nat (Concurrency (config s)) \<and>
         workers (RestartWorkers_rl s) =
           workers s @ replicate (nat (Concurrency (config s))) (clients s, AtRange) \<and>
         (\<forall>w \<in> set (workers s). snd w = Returned) \<and>
         caller (RestartWorkers_rl s) = Idle"
proof -
  have dead: "filter (\<lambda>w. snd w \<noteq> Returned) (workers s) = []"
    using assms(2,3) by (simp add: live_def)
  then have all: "\<forall>w \<in> set (workers s). snd w = Returned"
    by (simp add: filter_empty_conv)
  show ?thesis
    using assms dead all
    by (simp add: RestartWorkers_rl_def returned_def start_rl_eq live_def)
qed

end
